theory Spec2Isabelle
  imports Complex_Main "HOL-Library.Monad_Syntax"
begin

section \<open>The driver-state detection engine\<close>

text \<open>
  A shallow embedding of \<^verbatim>\<open>mobile-app/src/services/detectionEngine.ts\<close> (class
  \<^verbatim>\<open>DetectionEngine\<close>) and of the types it uses.

  Conventions of the embedding.
  \<^item> A JavaScript \<^verbatim>\<open>number\<close> that holds a measurement or a threshold is a \<open>real\<close>:
    arithmetic is exact, and the inputs (landmark coordinates, frame sizes, thresholds)
    are finite. The places where the source can still produce \<^verbatim>\<open>NaN\<close> from finite inputs
    (a division by a zero frame size, the centroid of an empty point list) are written out
    as explicit cases. The three frame counters only ever hold natural numbers.
  \<^item> \<^verbatim>\<open>Date.now()\<close> is a parameter \<open>now\<close> (milliseconds); one call of a method reads
    one value of the clock. The random suffix of an alert id is not represented.
  \<^item> A subscriber callback is an opaque identifier; calling it is recorded as a delivery
    \<open>(callback, alert)\<close>. Callbacks are taken not to throw and not to call back into
    the engine.
  \<^item> Reading a property of \<^verbatim>\<open>undefined\<close> throws a \<^verbatim>\<open>TypeError\<close>. A function that can
    throw returns an \<open>option\<close> (\<open>None\<close> is the throw); \<open>processFrame\<close>, which mutates
    the engine before it can throw, returns its completion together with the engine and
    the deliveries made up to that point.
  \<^item> Fields that the engine never reads (\<^verbatim>\<open>boundingBox\<close>, \<^verbatim>\<open>confidence\<close>,
    \<^verbatim>\<open>handedness\<close>, \<^verbatim>\<open>z\<close>, \<^verbatim>\<open>visibility\<close>, \<^verbatim>\<open>location\<close>) are left out.
    The fields \<^verbatim>\<open>x\<close>, \<^verbatim>\<open>y\<close>, \<^verbatim>\<open>type\<close>, \<^verbatim>\<open>severity\<close>, \<^verbatim>\<open>level\<close> carry a prefix.
\<close>

subsection \<open>Types (types/index.ts)\<close>

record DetectionConfig =
  earThreshold :: real
  eyeClosedFramesThreshold :: real
  blinkRateThreshold :: real
  marThreshold :: real
  yawnThreshold :: real
  gazeDeviationThreshold :: real
  headTurnThreshold :: real
  handNearFaceDistance :: real

text \<open>\<^verbatim>\<open>Partial<DetectionConfig>\<close>: every field may be absent.\<close>

record PartialConfig =
  p_earThreshold :: "real option"
  p_eyeClosedFramesThreshold :: "real option"
  p_blinkRateThreshold :: "real option"
  p_marThreshold :: "real option"
  p_yawnThreshold :: "real option"
  p_gazeDeviationThreshold :: "real option"
  p_headTurnThreshold :: "real option"
  p_handNearFaceDistance :: "real option"

datatype AlertType =
    eye_closure | drowsiness | distraction | phone_usage | texting | yawning
  | head_droop | head_turn | gaze_deviation | hand_near_face | blink_rate_high

datatype Severity = Mild | Moderate | Severe

datatype EyeSeverity = Normal | Warning | Alert

datatype Level = LevelNone | LevelMild | LevelModerate | LevelSevere

text \<open>The three shapes of \<^verbatim>\<open>metadata\<close> that the engine passes to \<^verbatim>\<open>triggerAlert\<close>.\<close>

datatype Metadata =
    EyeMeta real nat      \<comment> \<open>\<^verbatim>\<open>{ ear, frames }\<close>\<close>
  | BlinkMeta nat         \<comment> \<open>\<^verbatim>\<open>{ blinkCount }\<close>\<close>
  | YawnMeta real nat     \<comment> \<open>\<^verbatim>\<open>{ mar, yawnCount }\<close>\<close>

record AlertData =
  alert_id :: int
  alert_type :: AlertType
  alert_severity :: Severity
  message :: string
  timestamp :: int
  confidenceScore :: "real option"
  metadata :: "Metadata option"
  sessionId :: string

record Landmark =
  lm_x :: real
  lm_y :: real

record FaceDetectionResult =
  face_landmarks :: "Landmark list option"

record HandDetectionResult =
  hand_landmarks :: "Landmark list"

text \<open>A number that may be infinite or \<^verbatim>\<open>NaN\<close> (only the two gaze outputs can be).\<close>

datatype jsnum = Fin real | PosInfinity | NegInfinity | NaN

record EyeClosure =
  leftEAR :: real
  rightEAR :: real
  averageEAR :: real
  isEyesClosed :: bool
  closureFrames :: nat
  eye_severity :: EyeSeverity

record HeadPose =
  hp_x :: real
  hp_y :: real
  pitch :: real
  yaw :: real
  roll :: real
  turn :: Level
  tilt :: Level
  droop :: Level

record Gaze =
  gaze_x :: jsnum
  gaze_y :: real
  deviation :: jsnum
  lookingAway :: bool

record Mouth =
  MAR :: real
  isYawning :: bool
  yawnCount :: nat

record Hands =
  nearEar :: bool
  nearFace :: bool
  possibleTexting :: bool
  phoneUsage :: bool

record Composite =
  level :: Level
  indicators :: "string list"

record DetectionResult =
  eyeClosure :: EyeClosure
  headPose :: HeadPose
  gaze :: Gaze
  mouth :: Mouth
  hands :: Hands
  drowsinessR :: Composite
  distractionR :: Composite

subsection \<open>The engine object\<close>

record CalibrationData =
  gazeCenter :: real
  headCenterX :: real
  headCenterY :: real

type_synonym callback = nat

type_synonym Delivery = "callback \<times> AlertData"

record DetectionEngine =
  config :: DetectionConfig
  eyeClosureCounter :: nat
  blinkCounter :: nat
  yawnCounter :: nat
  blinkTimer :: int
  marHistory :: "real list"
  calibrationData :: "CalibrationData option"
  isCalibrated :: bool
  alertCallbacks :: "callback list"

definition DEFAULT_CONFIG :: DetectionConfig where
  "DEFAULT_CONFIG =
     \<lparr> earThreshold = 0.140,
       eyeClosedFramesThreshold = 9,
       blinkRateThreshold = 5,
       marThreshold = 0.6,
       yawnThreshold = 3,
       gazeDeviationThreshold = 0.05,
       headTurnThreshold = 0.08,
       handNearFaceDistance = 200 \<rparr>"

text \<open>The object spread \<^verbatim>\<open>{ ...base, ...partial }\<close>.\<close>

definition spread :: "DetectionConfig \<Rightarrow> PartialConfig \<Rightarrow> DetectionConfig" where
  "spread base p =
     \<lparr> earThreshold = (case p_earThreshold p of Some v \<Rightarrow> v | None \<Rightarrow> earThreshold base),
       eyeClosedFramesThreshold =
         (case p_eyeClosedFramesThreshold p of Some v \<Rightarrow> v | None \<Rightarrow> eyeClosedFramesThreshold base),
       blinkRateThreshold =
         (case p_blinkRateThreshold p of Some v \<Rightarrow> v | None \<Rightarrow> blinkRateThreshold base),
       marThreshold = (case p_marThreshold p of Some v \<Rightarrow> v | None \<Rightarrow> marThreshold base),
       yawnThreshold = (case p_yawnThreshold p of Some v \<Rightarrow> v | None \<Rightarrow> yawnThreshold base),
       gazeDeviationThreshold =
         (case p_gazeDeviationThreshold p of Some v \<Rightarrow> v | None \<Rightarrow> gazeDeviationThreshold base),
       headTurnThreshold =
         (case p_headTurnThreshold p of Some v \<Rightarrow> v | None \<Rightarrow> headTurnThreshold base),
       handNearFaceDistance =
         (case p_handNearFaceDistance p of Some v \<Rightarrow> v | None \<Rightarrow> handNearFaceDistance base) \<rparr>"

definition noOverrides :: PartialConfig where
  "noOverrides =
     \<lparr> p_earThreshold = None, p_eyeClosedFramesThreshold = None, p_blinkRateThreshold = None,
       p_marThreshold = None, p_yawnThreshold = None, p_gazeDeviationThreshold = None,
       p_headTurnThreshold = None, p_handNearFaceDistance = None \<rparr>"

text \<open>The constructor; the field initialisers run first, \<open>now\<close> is their \<^verbatim>\<open>Date.now()\<close>.\<close>

definition newDetectionEngine :: "int \<Rightarrow> PartialConfig \<Rightarrow> DetectionEngine" where
  "newDetectionEngine now cfg =
     \<lparr> config = spread DEFAULT_CONFIG cfg,
       eyeClosureCounter = 0,
       blinkCounter = 0,
       yawnCounter = 0,
       blinkTimer = now,
       marHistory = replicate 30 0,
       calibrationData = None,
       isCalibrated = False,
       alertCallbacks = [] \<rparr>"

definition setConfig :: "PartialConfig \<Rightarrow> DetectionEngine \<Rightarrow> DetectionEngine" where
  "setConfig cfg st = st\<lparr>config := spread (config st) cfg\<rparr>"

definition setCalibration :: "real \<Rightarrow> real \<Rightarrow> real \<Rightarrow> DetectionEngine \<Rightarrow> DetectionEngine" where
  "setCalibration gc hcx hcy st =
     st\<lparr>calibrationData := Some \<lparr>gazeCenter = gc, headCenterX = hcx, headCenterY = hcy\<rparr>,
        isCalibrated := True\<rparr>"

definition addAlertCallback :: "callback \<Rightarrow> DetectionEngine \<Rightarrow> DetectionEngine" where
  "addAlertCallback cb st = st\<lparr>alertCallbacks := alertCallbacks st @ [cb]\<rparr>"

text \<open>
  \<^verbatim>\<open>triggerAlert\<close> builds the alert and calls every registered callback with it, in
  registration order. It reads no timestamp of an earlier alert and writes no field of
  the engine.
\<close>

definition triggerAlert ::
  "int \<Rightarrow> AlertType \<Rightarrow> Severity \<Rightarrow> string \<Rightarrow> real option \<Rightarrow> Metadata option
     \<Rightarrow> DetectionEngine \<Rightarrow> AlertData \<times> Delivery list" where
  "triggerAlert now ty sev msg conf meta st =
     (let alert = \<lparr> alert_id = now, alert_type = ty, alert_severity = sev, message = msg,
                     timestamp = now, confidenceScore = conf, metadata = meta,
                     sessionId = [] \<rparr>
      in (alert, map (\<lambda>cb. (cb, alert)) (alertCallbacks st)))"

definition reset :: "int \<Rightarrow> DetectionEngine \<Rightarrow> DetectionEngine" where
  "reset now st =
     st\<lparr>eyeClosureCounter := 0,
        blinkCounter := 0,
        yawnCounter := 0,
        blinkTimer := now,
        marHistory := map (\<lambda>_. 0) (marHistory st)\<rparr>"

subsection \<open>Geometry\<close>

definition hypot :: "real \<Rightarrow> real \<Rightarrow> real" where
  "hypot a b = sqrt (a * a + b * b)"

text \<open>Array indexing: an index past the end reads \<^verbatim>\<open>undefined\<close>.\<close>

definition elemAt :: "'a list \<Rightarrow> nat \<Rightarrow> 'a option" where
  "elemAt xs i = (if i < length xs then Some (xs ! i) else None)"

text \<open>
  The local \<^verbatim>\<open>getPoint\<close> of \<^verbatim>\<open>calculateEAR\<close> and \<^verbatim>\<open>calculateMAR\<close>: the entries of
  the landmark array may themselves be \<^verbatim>\<open>undefined\<close> (the caller builds the array with
  \<^verbatim>\<open>INDICES.map(i => landmarks[i])\<close>), and reading \<^verbatim>\<open>.x\<close> of one throws.
\<close>

definition getPoint :: "Landmark option list \<Rightarrow> real \<Rightarrow> real \<Rightarrow> nat \<Rightarrow> (real \<times> real) option" where
  "getPoint lms frameWidth frameHeight index =
     (case elemAt lms index of
        Some (Some lm) \<Rightarrow> Some (lm_x lm * frameWidth, lm_y lm * frameHeight)
      | _ \<Rightarrow> None)"

definition calculateEAR :: "Landmark option list \<Rightarrow> real \<Rightarrow> real \<Rightarrow> real option" where
  "calculateEAR eyeLandmarks frameWidth frameHeight =
     do {
       p1 \<leftarrow> getPoint eyeLandmarks frameWidth frameHeight 1;
       p2 \<leftarrow> getPoint eyeLandmarks frameWidth frameHeight 5;
       p3 \<leftarrow> getPoint eyeLandmarks frameWidth frameHeight 2;
       p4 \<leftarrow> getPoint eyeLandmarks frameWidth frameHeight 4;
       p5 \<leftarrow> getPoint eyeLandmarks frameWidth frameHeight 0;
       p6 \<leftarrow> getPoint eyeLandmarks frameWidth frameHeight 3;
       let A = hypot (fst p2 - fst p6) (snd p2 - snd p6);
       let B = hypot (fst p3 - fst p5) (snd p3 - snd p5);
       let C = hypot (fst p1 - fst p4) (snd p1 - snd p4);
       Some (if C > 0 then (A + B) / (2.0 * C) else 0)
     }"

definition calculateMAR :: "Landmark option list \<Rightarrow> real \<Rightarrow> real \<Rightarrow> real option" where
  "calculateMAR mouthLandmarks frameWidth frameHeight =
     do {
       top \<leftarrow> getPoint mouthLandmarks frameWidth frameHeight 13;
       bottom \<leftarrow> getPoint mouthLandmarks frameWidth frameHeight 14;
       left \<leftarrow> getPoint mouthLandmarks frameWidth frameHeight 78;
       right \<leftarrow> getPoint mouthLandmarks frameWidth frameHeight 308;
       let vertical = hypot (fst top - fst bottom) (snd top - snd bottom);
       let horizontal = hypot (fst left - fst right) (snd left - snd right);
       Some (if horizontal > 0 then vertical / horizontal else 0)
     }"

text \<open>
  A quotient of two finite numbers, with the IEEE results of a division by zero. Only the
  quotients that the source compares or stores without a guard go through it.
\<close>

definition jsdiv :: "real \<Rightarrow> real \<Rightarrow> jsnum" where
  "jsdiv a b =
     (if b \<noteq> 0 then Fin (a / b)
      else if a = 0 then NaN
      else if a > 0 then PosInfinity else NegInfinity)"

fun jsle :: "jsnum \<Rightarrow> real \<Rightarrow> bool" where
  "jsle (Fin v) c = (v \<le> c)"
| "jsle NegInfinity c = True"
| "jsle PosInfinity c = False"
| "jsle NaN c = False"

fun jslt :: "jsnum \<Rightarrow> real \<Rightarrow> bool" where
  "jslt (Fin v) c = (v < c)"
| "jslt NegInfinity c = True"
| "jslt PosInfinity c = False"
| "jslt NaN c = False"

fun jsgt :: "jsnum \<Rightarrow> real \<Rightarrow> bool" where
  "jsgt (Fin v) c = (v > c)"
| "jsgt NegInfinity c = False"
| "jsgt PosInfinity c = True"
| "jsgt NaN c = False"

text \<open>\<^verbatim>\<open>Math.abs(v - c)\<close> for a finite \<open>c\<close>.\<close>

fun jsAbsDiff :: "jsnum \<Rightarrow> real \<Rightarrow> jsnum" where
  "jsAbsDiff (Fin v) c = Fin \<bar>v - c\<bar>"
| "jsAbsDiff NegInfinity c = PosInfinity"
| "jsAbsDiff PosInfinity c = PosInfinity"
| "jsAbsDiff NaN c = NaN"

text \<open>
  The centroid of a list of points: the two sums divided by the number of points. For
  an empty list both coordinates are \<^verbatim>\<open>0 / 0\<close>, that is \<^verbatim>\<open>NaN\<close>.
\<close>

datatype center = Center real real | NaNCenter

definition centroid :: "(real \<times> real) list \<Rightarrow> center" where
  "centroid points =
     (if points = [] then NaNCenter
      else Center (sum_list (map fst points) / real (length points))
                  (sum_list (map snd points) / real (length points)))"

text \<open>\<^verbatim>\<open>getIrisCenter\<close>: reading \<^verbatim>\<open>.x\<close> of an undefined entry throws.\<close>

definition getIrisCenter :: "Landmark option list \<Rightarrow> real \<Rightarrow> real \<Rightarrow> center option" where
  "getIrisCenter irisLandmarks frameWidth frameHeight =
     do {
       points \<leftarrow> those (map (map_option (\<lambda>landmark.
                   (lm_x landmark * frameWidth, lm_y landmark * frameHeight))) irisLandmarks);
       Some (centroid points)
     }"

definition getHandCenter :: "Landmark list \<Rightarrow> real \<Rightarrow> real \<Rightarrow> center" where
  "getHandCenter handLandmarks frameWidth frameHeight =
     centroid (map (\<lambda>landmark. (lm_x landmark * frameWidth, lm_y landmark * frameHeight))
                 handLandmarks)"

definition LEFT_EAR_TIP :: nat where "LEFT_EAR_TIP = 234"
definition RIGHT_EAR_TIP :: nat where "RIGHT_EAR_TIP = 454"

definition isHandNearEar ::
  "Landmark list \<Rightarrow> Landmark list \<Rightarrow> real \<Rightarrow> real \<Rightarrow> bool option" where
  "isHandNearEar faceLandmarks handLandmarks frameWidth frameHeight =
     do {
       l \<leftarrow> elemAt faceLandmarks LEFT_EAR_TIP;
       let leftEar = (lm_x l * frameWidth, lm_y l * frameHeight);
       r \<leftarrow> elemAt faceLandmarks RIGHT_EAR_TIP;
       let rightEar = (lm_x r * frameWidth, lm_y r * frameHeight);
       Some (list_ex (\<lambda>landmark.
               let handPoint = (lm_x landmark * frameWidth, lm_y landmark * frameHeight);
                   distanceToLeftEar =
                     hypot (fst handPoint - fst leftEar) (snd handPoint - snd leftEar);
                   distanceToRightEar =
                     hypot (fst handPoint - fst rightEar) (snd handPoint - snd rightEar)
               in distanceToLeftEar < 40 \<or> distanceToRightEar < 40) handLandmarks)
     }"

definition isHandNearFace ::
  "DetectionConfig \<Rightarrow> real \<times> real \<Rightarrow> Landmark list \<Rightarrow> real \<Rightarrow> real \<Rightarrow> bool" where
  "isHandNearFace cfg faceCenter handLandmarks frameWidth frameHeight =
     list_ex (\<lambda>landmark.
        let handPoint = (lm_x landmark * frameWidth, lm_y landmark * frameHeight);
            distance = hypot (fst faceCenter - fst handPoint) (snd faceCenter - snd handPoint)
        in distance < handNearFaceDistance cfg) handLandmarks"

text \<open>
  \<^verbatim>\<open>detectTexting\<close>. A hand without landmarks has a \<^verbatim>\<open>NaN\<close> centre; every comparison
  with it is false, and so is the result.
\<close>

definition detectTexting :: "HandDetectionResult list \<Rightarrow> real \<Rightarrow> real \<Rightarrow> bool" where
  "detectTexting handResults frameWidth frameHeight =
     (case handResults of
        [hand1, hand2] \<Rightarrow>
          (case (getHandCenter (hand_landmarks hand1) frameWidth frameHeight,
                 getHandCenter (hand_landmarks hand2) frameWidth frameHeight) of
             (Center x1 y1, Center x2 y2) \<Rightarrow>
               let distance = hypot (x1 - x2) (y1 - y2);
                   normalizedDistance = jsdiv distance frameWidth;
                   bothHandsLow = (jsgt (jsdiv y1 frameHeight) 0.6
                                   \<and> jsgt (jsdiv y2 frameHeight) 0.6);
                   handsClose = jslt normalizedDistance 0.35
               in bothHandsLow \<and> handsClose
           | _ \<Rightarrow> False)
      | _ \<Rightarrow> False)"

subsection \<open>processFrame\<close>

datatype error = TypeError

datatype 'a completion = Returned 'a | Threw error

text \<open>
  What a running \<^verbatim>\<open>processFrame\<close> call holds: the result object under construction,
  the engine, and the deliveries made so far in this call.
\<close>

record FrameState =
  res :: DetectionResult
  eng :: DetectionEngine
  sent :: "Delivery list"

definition triggerAlertIn ::
  "int \<Rightarrow> AlertType \<Rightarrow> Severity \<Rightarrow> string \<Rightarrow> real option \<Rightarrow> Metadata option
     \<Rightarrow> FrameState \<Rightarrow> FrameState" where
  "triggerAlertIn now ty sev msg conf meta s =
     s\<lparr>sent := sent s @ snd (triggerAlert now ty sev msg conf meta (eng s))\<rparr>"

text \<open>Lines 203 to 247: the result object with its defaults.\<close>

definition initialResult :: "DetectionEngine \<Rightarrow> DetectionResult" where
  "initialResult st =
     \<lparr> eyeClosure = \<lparr> leftEAR = 0, rightEAR = 0, averageEAR = 0, isEyesClosed = False,
                      closureFrames = eyeClosureCounter st, eye_severity = Normal \<rparr>,
       headPose = \<lparr> hp_x = 0, hp_y = 0, pitch = 0, yaw = 0, roll = 0,
                    turn = LevelNone, tilt = LevelNone, droop = LevelNone \<rparr>,
       gaze = \<lparr> gaze_x = Fin 0.5, gaze_y = 0.5, deviation = Fin 0, lookingAway = False \<rparr>,
       mouth = \<lparr> MAR = 0, isYawning = False, yawnCount = yawnCounter st \<rparr>,
       hands = \<lparr> nearEar = False, nearFace = False, possibleTexting = False,
                 phoneUsage = False \<rparr>,
       drowsinessR = \<lparr> level = LevelNone, indicators = [] \<rparr>,
       distractionR = \<lparr> level = LevelNone, indicators = [] \<rparr> \<rparr>"

definition NOSE_TIP :: nat where "NOSE_TIP = 1"
definition LEFT_EYE :: "nat list" where "LEFT_EYE = [33, 160, 158, 133, 153, 144]"
definition RIGHT_EYE :: "nat list" where "RIGHT_EYE = [362, 385, 387, 263, 373, 380]"
definition LEFT_IRIS :: "nat list" where "LEFT_IRIS = [474, 475, 476, 477]"
definition RIGHT_IRIS :: "nat list" where "RIGHT_IRIS = [469, 470, 471, 472]"
definition MOUTH :: "nat list" where "MOUTH = [13, 14, 78, 308]"

text \<open>
  Lines 253 to 287: the values computed from the face before the engine is touched.
  Each of them can throw on an array that is too short.
\<close>

record FaceMetrics =
  fm_nose :: Landmark
  fm_faceCenter :: "real \<times> real"
  fm_leftEAR :: real
  fm_rightEAR :: real
  fm_averageEAR :: real
  fm_irisCenter :: center
  fm_irisVisible :: bool

definition faceMetrics :: "Landmark list \<Rightarrow> real \<Rightarrow> real \<Rightarrow> FaceMetrics option" where
  "faceMetrics landmarks frameWidth frameHeight =
     do {
       nose \<leftarrow> elemAt landmarks NOSE_TIP;
       let faceCenter = (lm_x nose * frameWidth, lm_y nose * frameHeight);
       let leftEyeLandmarks = map (elemAt landmarks) LEFT_EYE;
       let rightEyeLandmarks = map (elemAt landmarks) RIGHT_EYE;
       lEAR \<leftarrow> calculateEAR leftEyeLandmarks frameWidth frameHeight;
       rEAR \<leftarrow> calculateEAR rightEyeLandmarks frameWidth frameHeight;
       let avgEAR = (lEAR + rEAR) / 2;
       leftIris \<leftarrow> getIrisCenter (map (elemAt landmarks) LEFT_IRIS) frameWidth frameHeight;
       rightIris \<leftarrow> getIrisCenter (map (elemAt landmarks) RIGHT_IRIS) frameWidth frameHeight;
       let irisCenter =
             (case (leftIris, rightIris) of
                (Center lx ly, Center rx ry) \<Rightarrow> Center ((lx + rx) / 2) ((ly + ry) / 2)
              | _ \<Rightarrow> NaNCenter);
       let irisYNormalized =
             (case irisCenter of Center ix iy \<Rightarrow> jsdiv iy frameHeight | NaNCenter \<Rightarrow> NaN);
       let irisVisible = jsle irisYNormalized 0.5;
       Some \<lparr> fm_nose = nose, fm_faceCenter = faceCenter, fm_leftEAR = lEAR,
              fm_rightEAR = rEAR, fm_averageEAR = avgEAR, fm_irisCenter = irisCenter,
              fm_irisVisible = irisVisible \<rparr>
     }"

text \<open>Lines 273 to 275.\<close>

definition storeEAR :: "FaceMetrics \<Rightarrow> FrameState \<Rightarrow> FrameState" where
  "storeEAR m s =
     s\<lparr>res := (res s)\<lparr>eyeClosure := (eyeClosure (res s))
          \<lparr>leftEAR := fm_leftEAR m, rightEAR := fm_rightEAR m,
           averageEAR := fm_averageEAR m\<rparr>\<rparr>\<rparr>"

text \<open>Lines 287 to 306: the eye-closure counter, its two alert tiers and the blink count.\<close>

definition eyeClosureDetection :: "int \<Rightarrow> real \<Rightarrow> bool \<Rightarrow> FrameState \<Rightarrow> FrameState" where
  "eyeClosureDetection now avgEAR irisVisible s =
     (let eyeClosedByEAR = avgEAR < earThreshold (config (eng s)) in
      if eyeClosedByEAR \<and> \<not> irisVisible then
        (let s1 = s\<lparr>eng := (eng s)\<lparr>eyeClosureCounter := eyeClosureCounter (eng s) + 1\<rparr>\<rparr> in
         if eyeClosureCounter (eng s1) > 30 then
           triggerAlertIn now eye_closure Severe ''Alert: Eyes Closed Too Long'' (Some 0.9)
             (Some (EyeMeta avgEAR (eyeClosureCounter (eng s1))))
             (s1\<lparr>res := (res s1)\<lparr>eyeClosure := (eyeClosure (res s1))
                  \<lparr>eye_severity := Alert, isEyesClosed := True\<rparr>\<rparr>\<rparr>)
         else if real (eyeClosureCounter (eng s1)) > eyeClosedFramesThreshold (config (eng s1))
         then
           triggerAlertIn now eye_closure Moderate ''Warning: Eyes Closed'' (Some 0.8)
             (Some (EyeMeta avgEAR (eyeClosureCounter (eng s1))))
             (s1\<lparr>res := (res s1)\<lparr>eyeClosure := (eyeClosure (res s1))
                  \<lparr>eye_severity := Warning, isEyesClosed := True\<rparr>\<rparr>\<rparr>)
         else s1)
      else
        (let s1 = (if eyeClosureCounter (eng s) \<ge> 2
                      \<and> real (eyeClosureCounter (eng s)) < eyeClosedFramesThreshold (config (eng s))
                   then s\<lparr>eng := (eng s)\<lparr>blinkCounter := blinkCounter (eng s) + 1\<rparr>\<rparr>
                   else s)
         in s1\<lparr>eng := (eng s1)\<lparr>eyeClosureCounter := 0\<rparr>\<rparr>))"

text \<open>Lines 308 to 315: the one-minute blink window.\<close>

definition blinkRateMonitoring :: "int \<Rightarrow> FrameState \<Rightarrow> FrameState" where
  "blinkRateMonitoring currentTime s =
     (if currentTime - blinkTimer (eng s) > 60000 then
        (let s1 = (if real (blinkCounter (eng s)) \<ge> blinkRateThreshold (config (eng s))
                   then triggerAlertIn currentTime blink_rate_high Mild ''High Blinking Rate''
                          (Some 0.7) (Some (BlinkMeta (blinkCounter (eng s)))) s
                   else s)
         in s1\<lparr>eng := (eng s1)\<lparr>blinkCounter := 0, blinkTimer := currentTime\<rparr>\<rparr>)
      else s)"

text \<open>
  Lines 322 to 334: the MAR history and the yawn counter. \<^verbatim>\<open>push\<close> appends, \<^verbatim>\<open>shift\<close>
  then drops the first entry. The counter has an increment and a reset on firing, and no
  other assignment.
\<close>

definition yawningDetection :: "int \<Rightarrow> real \<Rightarrow> FrameState \<Rightarrow> FrameState" where
  "yawningDetection now mar s =
     (let s1 = s\<lparr>res := (res s)\<lparr>mouth := (mouth (res s))\<lparr>MAR := mar\<rparr>\<rparr>,
                 eng := (eng s)\<lparr>marHistory := tl (marHistory (eng s) @ [mar])\<rparr>\<rparr>;
          s2 = (if mar > marThreshold (config (eng s1))
                then s1\<lparr>eng := (eng s1)\<lparr>yawnCounter := yawnCounter (eng s1) + 1\<rparr>\<rparr>
                else s1)
      in if real (yawnCounter (eng s2)) > yawnThreshold (config (eng s2)) then
           (let s3 = triggerAlertIn now yawning Moderate ''Warning: Yawning'' (Some 0.8)
                       (Some (YawnMeta mar (yawnCounter (eng s2))))
                       (s2\<lparr>res := (res s2)\<lparr>mouth := (mouth (res s2))\<lparr>isYawning := True\<rparr>\<rparr>\<rparr>)
            in s3\<lparr>eng := (eng s3)\<lparr>yawnCounter := 0\<rparr>\<rparr>)
         else s2)"

text \<open>
  Lines 336 to 408: head pose and gaze. The offsets are compared only inside the
  calibration check. \<open>headYOffset\<close> is already an absolute value; the source takes its
  absolute value again.
\<close>

definition setTurn :: "Level \<Rightarrow> FrameState \<Rightarrow> FrameState" where
  "setTurn v s = s\<lparr>res := (res s)\<lparr>headPose := (headPose (res s))\<lparr>turn := v\<rparr>\<rparr>\<rparr>"

definition setTilt :: "Level \<Rightarrow> FrameState \<Rightarrow> FrameState" where
  "setTilt v s = s\<lparr>res := (res s)\<lparr>headPose := (headPose (res s))\<lparr>tilt := v\<rparr>\<rparr>\<rparr>"

definition setDroop :: "Level \<Rightarrow> FrameState \<Rightarrow> FrameState" where
  "setDroop v s = s\<lparr>res := (res s)\<lparr>headPose := (headPose (res s))\<lparr>droop := v\<rparr>\<rparr>\<rparr>"

definition headTurning :: "int \<Rightarrow> real \<Rightarrow> FrameState \<Rightarrow> FrameState" where
  "headTurning now headXOffset s =
     (if headXOffset > headTurnThreshold (config (eng s)) then
        (if headXOffset < 0.1 then
           triggerAlertIn now head_turn Mild ''Mild Head Turn'' (Some 0.6) None
             (setTurn LevelMild s)
         else if headXOffset < 0.2 then
           triggerAlertIn now head_turn Moderate ''Moderate Head Turn'' (Some 0.8) None
             (setTurn LevelModerate s)
         else
           triggerAlertIn now head_turn Severe ''Severe Head Turn'' (Some 0.9) None
             (setTurn LevelSevere s))
      else s)"

definition headTiltDroop :: "int \<Rightarrow> real \<Rightarrow> real \<Rightarrow> real \<Rightarrow> FrameState \<Rightarrow> FrameState" where
  "headTiltDroop now headY centerY headYOffset s =
     (if \<bar>headYOffset\<bar> > headTurnThreshold (config (eng s)) then
        (if headY < centerY then
           (if \<bar>headYOffset\<bar> < 0.08 then
              triggerAlertIn now head_turn Mild ''Mild Looking Upward'' (Some 0.6) None
                (setTilt LevelMild s)
            else if \<bar>headYOffset\<bar> < 0.15 then
              triggerAlertIn now head_turn Moderate ''Moderate Looking Upward'' (Some 0.8) None
                (setTilt LevelModerate s)
            else
              triggerAlertIn now head_turn Severe ''Severe Looking Upward'' (Some 0.9) None
                (setTilt LevelSevere s))
         else
           (if \<bar>headYOffset\<bar> < 0.07 then
              triggerAlertIn now head_droop Mild ''Head drooping symptom'' (Some 0.7) None
                (setDroop LevelMild s)
            else if \<bar>headYOffset\<bar> < 0.12 then
              triggerAlertIn now head_droop Moderate ''Head drooping started'' (Some 0.8) None
                (setDroop LevelModerate s)
            else
              triggerAlertIn now head_droop Severe ''Head drooped'' (Some 0.9) None
                (setDroop LevelSevere s)))
      else s)"

definition gazeEstimation :: "int \<Rightarrow> center \<Rightarrow> real \<Rightarrow> real \<Rightarrow> FrameState \<Rightarrow> FrameState" where
  "gazeEstimation now irisCenter frameWidth gazeCenter0 s =
     (let gazeXNorm =
            (case irisCenter of Center ix iy \<Rightarrow> jsdiv ix frameWidth | NaNCenter \<Rightarrow> NaN);
          gazeOffset = jsAbsDiff gazeXNorm gazeCenter0;
          s1 = s\<lparr>res := (res s)\<lparr>gaze := (gaze (res s))
                  \<lparr>gaze_x := gazeXNorm, deviation := gazeOffset\<rparr>\<rparr>\<rparr>
      in if jsgt gazeOffset (gazeDeviationThreshold (config (eng s1))) then
           (let s2 = s1\<lparr>res := (res s1)\<lparr>gaze := (gaze (res s1))\<lparr>lookingAway := True\<rparr>\<rparr>\<rparr>
            in if jslt gazeOffset 0.1 then
                 triggerAlertIn now gaze_deviation Mild ''Mild Gaze Deviation'' (Some 0.6) None s2
               else if jslt gazeOffset 0.2 then
                 triggerAlertIn now gaze_deviation Moderate ''Moderate Gaze Deviation''
                   (Some 0.8) None s2
               else
                 triggerAlertIn now gaze_deviation Severe ''Severe Gaze Deviation''
                   (Some 0.9) None s2)
         else s1)"

definition headPoseEstimation ::
  "int \<Rightarrow> Landmark \<Rightarrow> center \<Rightarrow> real \<Rightarrow> FrameState \<Rightarrow> FrameState" where
  "headPoseEstimation now nose irisCenter frameWidth s =
     (let headX = lm_x nose;
          headY = lm_y nose;
          s1 = s\<lparr>res := (res s)\<lparr>headPose := (headPose (res s))
                  \<lparr>hp_x := headX, hp_y := headY\<rparr>\<rparr>\<rparr>
      in case (if isCalibrated (eng s1) then calibrationData (eng s1) else None) of
           None \<Rightarrow> s1
         | Some cal \<Rightarrow>
             (let headXOffset = \<bar>headX - headCenterX cal\<bar>;
                  headYOffset = \<bar>headY - headCenterY cal\<bar>;
                  s2 = headTurning now headXOffset s1;
                  s3 = headTiltDroop now headY (headCenterY cal) headYOffset s2
              in gazeEstimation now irisCenter frameWidth (gazeCenter cal) s3))"

text \<open>
  Lines 410 to 432: the loop over the hands, then the texting check. \<^verbatim>\<open>isHandNearEar\<close>
  reads two face landmarks and can throw; what was delivered before stays delivered
  (\<open>Inl\<close> is the throw).
\<close>

fun handLoop ::
  "int \<Rightarrow> Landmark list \<Rightarrow> real \<times> real \<Rightarrow> real \<Rightarrow> real \<Rightarrow> HandDetectionResult list
     \<Rightarrow> FrameState \<Rightarrow> FrameState + FrameState" where
  "handLoop now landmarks faceCenter frameWidth frameHeight [] s = Inr s"
| "handLoop now landmarks faceCenter frameWidth frameHeight (hand # rest) s =
     (case isHandNearEar landmarks (hand_landmarks hand) frameWidth frameHeight of
        None \<Rightarrow> Inl s
      | Some ear \<Rightarrow>
          (let s1 = (if ear then
                       triggerAlertIn now phone_usage Moderate ''Likely mobile call'' (Some 0.8)
                         None
                         (s\<lparr>res := (res s)\<lparr>hands := (hands (res s))
                              \<lparr>nearEar := True, phoneUsage := True\<rparr>\<rparr>\<rparr>)
                     else s);
               s2 = (if isHandNearFace (config (eng s1)) faceCenter (hand_landmarks hand)
                          frameWidth frameHeight
                     then
                       triggerAlertIn now hand_near_face Mild ''Hand near the face'' (Some 0.7)
                         None
                         (s1\<lparr>res := (res s1)\<lparr>hands := (hands (res s1))\<lparr>nearFace := True\<rparr>\<rparr>\<rparr>)
                     else s1)
           in handLoop now landmarks faceCenter frameWidth frameHeight rest s2))"

definition handAnalysis ::
  "int \<Rightarrow> Landmark list \<Rightarrow> real \<times> real \<Rightarrow> real \<Rightarrow> real \<Rightarrow> HandDetectionResult list
     \<Rightarrow> FrameState \<Rightarrow> FrameState + FrameState" where
  "handAnalysis now landmarks faceCenter frameWidth frameHeight handResults s =
     (if length handResults > 0 then
        (case handLoop now landmarks faceCenter frameWidth frameHeight handResults s of
           Inl t \<Rightarrow> Inl t
         | Inr s1 \<Rightarrow>
             Inr (if detectTexting handResults frameWidth frameHeight then
                    triggerAlertIn now texting Severe ''Possible texting observed'' (Some 0.9)
                      None
                      (s1\<lparr>res := (res s1)\<lparr>hands := (hands (res s1))
                            \<lparr>possibleTexting := True\<rparr>\<rparr>\<rparr>)
                  else s1))
      else Inr s)"

text \<open>Lines 434 to 446.\<close>

definition levelSeverity :: "Level \<Rightarrow> nat" where
  "levelSeverity l =
     (if l = LevelSevere then 3 else if l = LevelModerate then 2
      else if l = LevelMild then 1 else 0)"

definition compositeDrowsiness :: "int \<Rightarrow> FrameState \<Rightarrow> FrameState" where
  "compositeDrowsiness now s =
     (let eyeClosureSeverity =
            (if eye_severity (eyeClosure (res s)) = Alert then 2
             else if eye_severity (eyeClosure (res s)) = Warning then 1 else (0::nat));
          headDroopSeverity = levelSeverity (droop (headPose (res s)))
      in if eyeClosureSeverity \<ge> 2 \<and> (headDroopSeverity \<ge> 1 \<or> isYawning (mouth (res s))) then
           triggerAlertIn now drowsiness Severe ''Severe DROWSINESS Observed'' (Some 0.95) None
             (s\<lparr>res := (res s)\<lparr>drowsinessR :=
                  \<lparr> level = LevelSevere,
                    indicators = [''prolonged eye closure'',
                      if headDroopSeverity \<ge> 1 then ''head droop'' else ''yawning''] \<rparr>\<rparr>\<rparr>)
         else if eyeClosureSeverity \<ge> 1
                 \<and> (headDroopSeverity \<ge> 1 \<or> isYawning (mouth (res s))) then
           triggerAlertIn now drowsiness Moderate ''Moderate DROWSINESS Observed'' (Some 0.85)
             None
             (s\<lparr>res := (res s)\<lparr>drowsinessR :=
                  \<lparr> level = LevelModerate,
                    indicators = [''eye closure'',
                      if headDroopSeverity \<ge> 1 then ''head droop'' else ''yawning''] \<rparr>\<rparr>\<rparr>)
         else s)"

text \<open>Lines 448 to 461.\<close>

definition compositeDistraction :: "int \<Rightarrow> FrameState \<Rightarrow> FrameState" where
  "compositeDistraction now s =
     (let headTurnSeverity = levelSeverity (turn (headPose (res s)));
          headTiltSeverity = levelSeverity (tilt (headPose (res s)));
          handsNotFree = (nearEar (hands (res s)) \<or> nearFace (hands (res s))
                          \<or> possibleTexting (hands (res s)))
      in if (headTurnSeverity \<ge> 2 \<or> headTiltSeverity \<ge> 2) \<and> handsNotFree then
           triggerAlertIn now distraction Severe ''Severe DISTRACTION Observed'' (Some 0.9) None
             (s\<lparr>res := (res s)\<lparr>distractionR :=
                  \<lparr> level = LevelSevere,
                    indicators = [''head movement'', ''hands not free''] \<rparr>\<rparr>\<rparr>)
         else if (headTurnSeverity \<ge> 1 \<or> headTiltSeverity \<ge> 1) \<and> handsNotFree then
           triggerAlertIn now distraction Moderate ''Moderate DISTRACTION Observed'' (Some 0.8)
             None
             (s\<lparr>res := (res s)\<lparr>distractionR :=
                  \<lparr> level = LevelModerate,
                    indicators = [''head movement'', ''hands not free''] \<rparr>\<rparr>\<rparr>)
         else s)"

text \<open>
  The method itself. The outcome is the completion (the returned result or the thrown
  error), the engine as the call leaves it, and the deliveries of the call in order.
  \<^verbatim>\<open>!faceResult || !faceResult.landmarks\<close> is the early return. The mouth array handed to
  \<^verbatim>\<open>calculateMAR\<close> is \<^verbatim>\<open>MOUTH.map(i => landmarks[i])\<close>, an array of four entries.
\<close>

definition threw :: "FrameState \<Rightarrow> DetectionResult completion \<times> DetectionEngine \<times> Delivery list" where
  "threw s = (Threw TypeError, eng s, sent s)"

definition returned :: "FrameState \<Rightarrow> DetectionResult completion \<times> DetectionEngine \<times> Delivery list" where
  "returned s = (Returned (res s), eng s, sent s)"

definition processFrame ::
  "FaceDetectionResult option \<Rightarrow> HandDetectionResult list \<Rightarrow> real \<Rightarrow> real \<Rightarrow> string \<Rightarrow> int
     \<Rightarrow> DetectionEngine \<Rightarrow> DetectionResult completion \<times> DetectionEngine \<times> Delivery list" where
  "processFrame faceResult handResults frameWidth frameHeight session currentTime st =
     (let s0 = \<lparr> res = initialResult st, eng = st, sent = [] \<rparr> in
      case (case faceResult of None \<Rightarrow> None | Some f \<Rightarrow> face_landmarks f) of
        None \<Rightarrow> returned s0
      | Some landmarks \<Rightarrow>
          (case faceMetrics landmarks frameWidth frameHeight of
             None \<Rightarrow> threw s0
           | Some m \<Rightarrow>
               (let s1 = storeEAR m s0;
                    s2 = eyeClosureDetection currentTime (fm_averageEAR m) (fm_irisVisible m) s1;
                    s3 = blinkRateMonitoring currentTime s2;
                    mouthLandmarks = map (elemAt landmarks) MOUTH
                in case calculateMAR mouthLandmarks frameWidth frameHeight of
                     None \<Rightarrow> threw s3
                   | Some mar \<Rightarrow>
                       (let s4 = yawningDetection currentTime mar s3;
                            s5 = headPoseEstimation currentTime (fm_nose m) (fm_irisCenter m)
                                   frameWidth s4
                        in case handAnalysis currentTime landmarks (fm_faceCenter m)
                                  frameWidth frameHeight handResults s5 of
                             Inl t \<Rightarrow> threw t
                           | Inr s6 \<Rightarrow>
                               returned (compositeDistraction currentTime
                                           (compositeDrowsiness currentTime s6))))))"

subsection \<open>Drivers and sample inputs\<close>

text \<open>A sequence of \<^verbatim>\<open>triggerAlert\<close> calls on one engine, each with its own clock value.\<close>

record TriggerCall =
  call_now :: int
  call_type :: AlertType
  call_severity :: Severity
  call_message :: string
  call_confidence :: "real option"
  call_metadata :: "Metadata option"

fun triggerAlerts :: "TriggerCall list \<Rightarrow> DetectionEngine \<Rightarrow> Delivery list" where
  "triggerAlerts [] st = []"
| "triggerAlerts (c # cs) st =
     snd (triggerAlert (call_now c) (call_type c) (call_severity c) (call_message c)
            (call_confidence c) (call_metadata c) st)
     @ triggerAlerts cs st"

definition eyeClosedCall :: "int \<Rightarrow> TriggerCall" where
  "eyeClosedCall t =
     \<lparr> call_now = t, call_type = eye_closure, call_severity = Moderate,
       call_message = ''Warning: Eyes Closed'', call_confidence = Some 0.8,
       call_metadata = None \<rparr>"

text \<open>
  A sequence of \<^verbatim>\<open>processFrame\<close> calls on one engine. The caller goes on to the next
  frame whether a call returned or threw; the engine object keeps what a call changed
  before it threw. The outcome lists, per call, its completion and its deliveries.
\<close>

record FrameInput =
  fi_face :: "FaceDetectionResult option"
  fi_hands :: "HandDetectionResult list"
  fi_width :: real
  fi_height :: real
  fi_session :: string
  fi_now :: int

fun feedFrames ::
  "FrameInput list \<Rightarrow> DetectionEngine
     \<Rightarrow> (DetectionResult completion \<times> Delivery list) list \<times> DetectionEngine" where
  "feedFrames [] st = ([], st)"
| "feedFrames (f # fs) st =
     (case processFrame (fi_face f) (fi_hands f) (fi_width f) (fi_height f) (fi_session f)
             (fi_now f) st of
        (c, st1, out) \<Rightarrow>
          (case feedFrames fs st1 of (rs, st2) \<Rightarrow> ((c, out) # rs, st2)))"

definition alertsOfType :: "AlertType \<Rightarrow> Delivery list \<Rightarrow> Delivery list" where
  "alertsOfType ty out = filter (\<lambda>d. alert_type (snd d) = ty) out"

text \<open>
  The condition of the eye-closure counter for a frame: the face yields its metrics, the
  average EAR is below the threshold and the iris is judged hidden.
\<close>

definition eyesClosedIn :: "DetectionConfig \<Rightarrow> FrameInput \<Rightarrow> bool" where
  "eyesClosedIn cfg f =
     (case fi_face f of
        None \<Rightarrow> False
      | Some face \<Rightarrow>
          (case face_landmarks face of
             None \<Rightarrow> False
           | Some landmarks \<Rightarrow>
               (case faceMetrics landmarks (fi_width f) (fi_height f) of
                  None \<Rightarrow> False
                | Some m \<Rightarrow> fm_averageEAR m < earThreshold cfg \<and> \<not> fm_irisVisible m)))"

text \<open>The average EAR that \<^verbatim>\<open>processFrame\<close> computes for a frame, if it gets that far.\<close>

definition frameAverageEAR :: "FrameInput \<Rightarrow> real option" where
  "frameAverageEAR f =
     (case fi_face f of
        None \<Rightarrow> None
      | Some face \<Rightarrow>
          (case face_landmarks face of
             None \<Rightarrow> None
           | Some landmarks \<Rightarrow>
               map_option fm_averageEAR (faceMetrics landmarks (fi_width f) (fi_height f))))"

definition frameIrisVisible :: "FrameInput \<Rightarrow> bool option" where
  "frameIrisVisible f =
     (case fi_face f of
        None \<Rightarrow> None
      | Some face \<Rightarrow>
          (case face_landmarks face of
             None \<Rightarrow> None
           | Some landmarks \<Rightarrow>
               map_option fm_irisVisible (faceMetrics landmarks (fi_width f) (fi_height f))))"

text \<open>
  The eye-closure deliveries of a call that raises the counter to \<open>n\<close> at time \<open>t\<close>
  with average EAR \<open>ear\<close>: the severe tier beyond 30, the moderate tier beyond the
  configured threshold, nothing otherwise.
\<close>

definition eyeClosureAlerts :: "DetectionEngine \<Rightarrow> int \<Rightarrow> real \<Rightarrow> nat \<Rightarrow> Delivery list" where
  "eyeClosureAlerts st t ear n =
     (if n > 30 then
        snd (triggerAlert t eye_closure Severe ''Alert: Eyes Closed Too Long''
               (Some 0.9) (Some (EyeMeta ear n)) st)
      else if real n > eyeClosedFramesThreshold (config st) then
        snd (triggerAlert t eye_closure Moderate ''Warning: Eyes Closed''
               (Some 0.8) (Some (EyeMeta ear n)) st)
      else [])"

text \<open>A default engine created at time 0 with one subscriber, callback 0.\<close>

definition subscribedEngine :: DetectionEngine where
  "subscribedEngine = addAlertCallback 0 (newDetectionEngine 0 noOverrides)"

definition pt :: "real \<Rightarrow> real \<Rightarrow> Landmark" where
  "pt a b = \<lparr> lm_x = a, lm_y = b \<rparr>"

text \<open>
  Sample faces of 478 landmarks, for a 1000 by 1000 frame. All points lie at
  \<open>(0.5, 0.6)\<close> except those named. With \<open>lid = 0.51\<close> both eyes have
  \<open>A = B = 10\<close>, \<open>C = 100\<close> and EAR \<open>0.1\<close>; with \<open>lid = 0.53\<close> the EAR is \<open>0.3\<close>.
  The iris points lie at 60 percent of the frame height, below the 50 percent line, so
  the iris counts as hidden. With \<open>jaw = 0.7\<close> the mouth is 100 pixels high and 100 wide.
\<close>

definition facePoint :: "real \<Rightarrow> real \<Rightarrow> real \<Rightarrow> nat \<Rightarrow> Landmark" where
  "facePoint lid jaw noseX i =
     (if i = 153 \<or> i = 373 \<or> i = 308 then pt 0.6 0.6
      else if i = 133 \<or> i = 158 \<or> i = 263 \<or> i = 387 then pt lid 0.6
      else if i = 14 then pt 0.5 jaw
      else if i = 1 then pt noseX 0.6
      else pt 0.5 0.6)"

definition sampleFace :: "real \<Rightarrow> real \<Rightarrow> real \<Rightarrow> FaceDetectionResult" where
  "sampleFace lid jaw noseX = \<lparr> face_landmarks = Some (map (facePoint lid jaw noseX) [0..<478]) \<rparr>"

definition closedEyesFace :: FaceDetectionResult where
  "closedEyesFace = sampleFace 0.51 0.6 0.5"

definition openEyesFace :: FaceDetectionResult where
  "openEyesFace = sampleFace 0.53 0.6 0.5"

definition yawningClosedEyesFace :: FaceDetectionResult where
  "yawningClosedEyesFace = sampleFace 0.51 0.7 0.5"

definition turnedFace :: FaceDetectionResult where
  "turnedFace = sampleFace 0.53 0.6 0.9"

definition frameOf :: "FaceDetectionResult \<Rightarrow> int \<Rightarrow> FrameInput" where
  "frameOf face t =
     \<lparr> fi_face = Some face, fi_hands = [], fi_width = 1000, fi_height = 1000,
       fi_session = ''session'', fi_now = t \<rparr>"

text \<open>\<open>n\<close> frames of one face, 33 milliseconds apart, starting at time 0.\<close>

definition framesOf :: "FaceDetectionResult \<Rightarrow> nat \<Rightarrow> FrameInput list" where
  "framesOf face n = map (\<lambda>i. frameOf face (int i * 33)) [0..<n]"

text \<open>The subscribed engine after calibration on the resting position of the sample faces.\<close>

definition calibratedEngine :: DetectionEngine where
  "calibratedEngine = setCalibration 0.5 0.5 0.6 subscribedEngine"

text \<open>Eyes open and the mouth wide open: the MAR of the full landmark array is 1.\<close>

definition yawningFace :: FaceDetectionResult where
  "yawningFace = sampleFace 0.53 0.7 0.5"

text \<open>An engine configured to report a yawn on any positive count of yawn frames.\<close>

definition eagerYawnEngine :: DetectionEngine where
  "eagerYawnEngine =
     addAlertCallback 0 (newDetectionEngine 0 (noOverrides\<lparr>p_yawnThreshold := Some (- 1)\<rparr>))"


text \<open>A frame without a face, at time \<open>t\<close>.\<close>

definition noFaceFrame :: "int \<Rightarrow> FrameInput" where
  "noFaceFrame t =
     \<lparr> fi_face = None, fi_hands = [], fi_width = 1000, fi_height = 1000,
       fi_session = ''session'', fi_now = t \<rparr>"


section \<open>Properties\<close>

subsection \<open>Basic facts\<close>

lemma hypot_zero_right [simp]: "hypot a 0 = \<bar>a\<bar>"
  by (simp add: hypot_def)

lemma hypot_zero_left [simp]: "hypot 0 b = \<bar>b\<bar>"
  by (simp add: hypot_def)

lemma hypot_nonneg [simp]: "0 \<le> hypot a b"
  by (simp add: hypot_def)

lemma elemAt_map_upt: "i < n \<Longrightarrow> elemAt (map f [0..<n]) i = Some (f i)"
  by (simp add: elemAt_def)

lemma elemAt_short: "length xs \<le> i \<Longrightarrow> elemAt xs i = None"
  by (simp add: elemAt_def)

lemma getPoint_Some:
  "elemAt lms i = Some (Some lm) \<Longrightarrow> getPoint lms w h i = Some (lm_x lm * w, lm_y lm * h)"
  by (simp add: getPoint_def)

lemma getPoint_None: "length lms \<le> i \<Longrightarrow> getPoint lms w h i = None"
  by (simp add: getPoint_def elemAt_short)

subsection \<open>The steps of processFrame\<close>

lemma calculateMAR_of_MOUTH: "calculateMAR (map (elemAt landmarks) MOUTH) w h = None"
  by (simp add: calculateMAR_def getPoint_None MOUTH_def)

lemma processFrame_no_face:
  "processFrame None hs w h sid now st = (Returned (initialResult st), st, [])"
  by (simp add: processFrame_def returned_def)

lemma processFrame_face:
  assumes "face_landmarks f = Some lms"
  shows "processFrame (Some f) hs w h sid now st =
     (case faceMetrics lms w h of
        None \<Rightarrow> (Threw TypeError, st, [])
      | Some m \<Rightarrow> threw (blinkRateMonitoring now
          (eyeClosureDetection now (fm_averageEAR m) (fm_irisVisible m)
             (storeEAR m \<lparr> res = initialResult st, eng = st, sent = [] \<rparr>))))"
  using assms
  by (simp add: processFrame_def calculateMAR_of_MOUTH threw_def Let_def split: option.splits)

lemma eng_storeEAR [simp]: "eng (storeEAR m s) = eng s" "sent (storeEAR m s) = sent s"
  by (simp_all add: storeEAR_def)

lemma eng_triggerAlertIn [simp]: "eng (triggerAlertIn now ty sev msg conf meta s) = eng s"
  by (simp add: triggerAlertIn_def)

lemma sent_triggerAlertIn:
  "sent (triggerAlertIn now ty sev msg conf meta s) =
     sent s @ snd (triggerAlert now ty sev msg conf meta (eng s))"
  by (simp add: triggerAlertIn_def)

lemma alertsOfType_append [simp]:
  "alertsOfType ty (xs @ ys) = alertsOfType ty xs @ alertsOfType ty ys"
  by (simp add: alertsOfType_def)

lemma alertsOfType_Nil [simp]: "alertsOfType ty [] = []"
  by (simp add: alertsOfType_def)

lemma alertsOfType_triggerAlert:
  "alertsOfType ty' (snd (triggerAlert now ty sev msg conf meta st)) =
     (if ty = ty' then snd (triggerAlert now ty sev msg conf meta st) else [])"
  by (simp add: alertsOfType_def triggerAlert_def Let_def filter_map comp_def)


lemma elemAt_facePoints:
  "i < 478 \<Longrightarrow> elemAt (map (facePoint lid jaw nx) [0..<478]) i = Some (facePoint lid jaw nx i)"
  by (rule elemAt_map_upt)

lemma faceMetrics_sample:
  "faceMetrics (map (facePoint lid jaw nx) [0..<478]) 1000 1000 =
     Some \<lparr> fm_nose = pt nx 0.6, fm_faceCenter = (nx * 1000, 600),
            fm_leftEAR = \<bar>500 - lid * 1000\<bar> / 100, fm_rightEAR = \<bar>500 - lid * 1000\<bar> / 100,
            fm_averageEAR = \<bar>500 - lid * 1000\<bar> / 100, fm_irisCenter = Center 500 600,
            fm_irisVisible = False \<rparr>"
  by (simp add: faceMetrics_def NOSE_TIP_def LEFT_EYE_def RIGHT_EYE_def LEFT_IRIS_def
      RIGHT_IRIS_def elemAt_facePoints calculateEAR_def getPoint_def elemAt_def [of "[_,_,_,_,_,_]"]
      getIrisCenter_def centroid_def facePoint_def pt_def jsdiv_def Let_def)

lemma triggerAlert_cong:
  "alertCallbacks st' = alertCallbacks st \<Longrightarrow>
     triggerAlert now ty sev msg conf meta st' = triggerAlert now ty sev msg conf meta st"
  by (simp add: triggerAlert_def)

lemma blinkRateMonitoring_eng:
  "eyeClosureCounter (eng (blinkRateMonitoring now s)) = eyeClosureCounter (eng s)"
  "yawnCounter (eng (blinkRateMonitoring now s)) = yawnCounter (eng s)"
  "config (eng (blinkRateMonitoring now s)) = config (eng s)"
  "alertCallbacks (eng (blinkRateMonitoring now s)) = alertCallbacks (eng s)"
  "marHistory (eng (blinkRateMonitoring now s)) = marHistory (eng s)"
  "calibrationData (eng (blinkRateMonitoring now s)) = calibrationData (eng s)"
  "isCalibrated (eng (blinkRateMonitoring now s)) = isCalibrated (eng s)"
  "blinkCounter (eng (blinkRateMonitoring now s)) =
     (if now - blinkTimer (eng s) > 60000 then 0 else blinkCounter (eng s))"
  "blinkTimer (eng (blinkRateMonitoring now s)) =
     (if now - blinkTimer (eng s) > 60000 then now else blinkTimer (eng s))"
  by (simp_all add: blinkRateMonitoring_def Let_def)

lemma blinkRateMonitoring_sent:
  "sent (blinkRateMonitoring now s) =
     sent s @ (if now - blinkTimer (eng s) > 60000
                  \<and> real (blinkCounter (eng s)) \<ge> blinkRateThreshold (config (eng s))
               then snd (triggerAlert now blink_rate_high Mild ''High Blinking Rate'' (Some 0.7)
                           (Some (BlinkMeta (blinkCounter (eng s)))) (eng s))
               else [])"
  by (simp add: blinkRateMonitoring_def Let_def sent_triggerAlertIn)

lemma eyeClosureDetection_eng:
  "config (eng (eyeClosureDetection now ear vis s)) = config (eng s)"
  "alertCallbacks (eng (eyeClosureDetection now ear vis s)) = alertCallbacks (eng s)"
  "yawnCounter (eng (eyeClosureDetection now ear vis s)) = yawnCounter (eng s)"
  "blinkTimer (eng (eyeClosureDetection now ear vis s)) = blinkTimer (eng s)"
  "marHistory (eng (eyeClosureDetection now ear vis s)) = marHistory (eng s)"
  "calibrationData (eng (eyeClosureDetection now ear vis s)) = calibrationData (eng s)"
  "isCalibrated (eng (eyeClosureDetection now ear vis s)) = isCalibrated (eng s)"
  by (simp_all add: eyeClosureDetection_def Let_def)

lemma eyeClosureDetection_counter:
  "eyeClosureCounter (eng (eyeClosureDetection now ear vis s)) =
     (if ear < earThreshold (config (eng s)) \<and> \<not> vis then eyeClosureCounter (eng s) + 1 else 0)"
  by (simp add: eyeClosureDetection_def Let_def)

lemma eyeClosureDetection_blink:
  "blinkCounter (eng (eyeClosureDetection now ear vis s)) =
     (if ear < earThreshold (config (eng s)) \<and> \<not> vis then blinkCounter (eng s)
      else if 2 \<le> eyeClosureCounter (eng s)
              \<and> real (eyeClosureCounter (eng s)) < eyeClosedFramesThreshold (config (eng s))
      then blinkCounter (eng s) + 1 else blinkCounter (eng s))"
  by (simp add: eyeClosureDetection_def Let_def)

lemma eyeClosureDetection_sent:
  "sent (eyeClosureDetection now ear vis s) =
     sent s @
     (if ear < earThreshold (config (eng s)) \<and> \<not> vis then
        (if eyeClosureCounter (eng s) + 1 > 30 then
           snd (triggerAlert now eye_closure Severe ''Alert: Eyes Closed Too Long'' (Some 0.9)
                  (Some (EyeMeta ear (eyeClosureCounter (eng s) + 1))) (eng s))
         else if real (eyeClosureCounter (eng s) + 1) > eyeClosedFramesThreshold (config (eng s))
         then
           snd (triggerAlert now eye_closure Moderate ''Warning: Eyes Closed'' (Some 0.8)
                  (Some (EyeMeta ear (eyeClosureCounter (eng s) + 1))) (eng s))
         else [])
      else [])"
  by (simp add: eyeClosureDetection_def Let_def sent_triggerAlertIn triggerAlert_def)

lemma frame_step:
  assumes "fi_face f = Some face" "face_landmarks face = Some lms"
    and "faceMetrics lms (fi_width f) (fi_height f) = Some m"
  shows "processFrame (fi_face f) (fi_hands f) (fi_width f) (fi_height f) (fi_session f)
           (fi_now f) st =
         threw (blinkRateMonitoring (fi_now f)
           (eyeClosureDetection (fi_now f) (fm_averageEAR m) (fm_irisVisible m)
             (storeEAR m \<lparr> res = initialResult st, eng = st, sent = [] \<rparr>)))"
  using assms by (simp add: processFrame_face)

lemma eyesClosedIn_metrics:
  assumes "eyesClosedIn cfg f"
  obtains face lms m where "fi_face f = Some face" "face_landmarks face = Some lms"
    "faceMetrics lms (fi_width f) (fi_height f) = Some m"
    "fm_averageEAR m < earThreshold cfg" "\<not> fm_irisVisible m"
    "frameAverageEAR f = Some (fm_averageEAR m)"
  using assms by (auto simp: eyesClosedIn_def frameAverageEAR_def split: option.splits)

lemma eyeClosureDetection_sent_closed:
  "ear < earThreshold (config (eng s)) \<Longrightarrow> \<not> vis \<Longrightarrow>
     sent (eyeClosureDetection now ear vis s) =
       sent s @ eyeClosureAlerts (eng s) now ear (eyeClosureCounter (eng s) + 1)"
  by (simp add: eyeClosureDetection_sent eyeClosureAlerts_def)

lemma alertsOfType_eyeClosureAlerts:
  "alertsOfType eye_closure (eyeClosureAlerts st t ear n) = eyeClosureAlerts st t ear n"
  by (simp add: eyeClosureAlerts_def alertsOfType_triggerAlert)

lemma blinkRateMonitoring_no_eye_closure:
  "alertsOfType eye_closure (sent (blinkRateMonitoring now s)) = alertsOfType eye_closure (sent s)"
  by (simp add: blinkRateMonitoring_sent alertsOfType_triggerAlert)

lemma closed_frame_step:
  assumes "eyesClosedIn (config st) f" and "frameAverageEAR f = Some ear"
  defines "P \<equiv> processFrame (fi_face f) (fi_hands f) (fi_width f) (fi_height f)
             (fi_session f) (fi_now f) st"
  shows "fst P = Threw TypeError"
    and "eyeClosureCounter (fst (snd P)) = eyeClosureCounter st + 1"
    and "config (fst (snd P)) = config st"
    and "alertCallbacks (fst (snd P)) = alertCallbacks st"
    and "alertsOfType eye_closure (snd (snd P)) =
           eyeClosureAlerts st (fi_now f) ear (eyeClosureCounter st + 1)"
proof -
  from assms(1) obtain face lms m where m: "fi_face f = Some face"
    "face_landmarks face = Some lms" "faceMetrics lms (fi_width f) (fi_height f) = Some m"
    "fm_averageEAR m < earThreshold (config st)" "\<not> fm_irisVisible m"
    "frameAverageEAR f = Some (fm_averageEAR m)"
    by (rule eyesClosedIn_metrics)
  have ear: "fm_averageEAR m = ear" using m(6) assms(2) by simp
  have P: "P = threw (blinkRateMonitoring (fi_now f)
           (eyeClosureDetection (fi_now f) (fm_averageEAR m) (fm_irisVisible m)
             (storeEAR m \<lparr> res = initialResult st, eng = st, sent = [] \<rparr>)))"
    unfolding P_def by (rule frame_step [OF m(1-3)])
  show "fst P = Threw TypeError" by (simp add: P threw_def)
  show "eyeClosureCounter (fst (snd P)) = eyeClosureCounter st + 1"
    using m(4,5) by (simp add: P threw_def blinkRateMonitoring_eng eyeClosureDetection_counter)
  show "config (fst (snd P)) = config st"
    by (simp add: P threw_def blinkRateMonitoring_eng eyeClosureDetection_eng)
  show "alertCallbacks (fst (snd P)) = alertCallbacks st"
    by (simp add: P threw_def blinkRateMonitoring_eng eyeClosureDetection_eng)
  show "alertsOfType eye_closure (snd (snd P)) =
           eyeClosureAlerts st (fi_now f) ear (eyeClosureCounter st + 1)"
    using m(4,5)
    by (simp add: P threw_def blinkRateMonitoring_no_eye_closure eyeClosureDetection_sent_closed
        alertsOfType_eyeClosureAlerts ear)
qed

lemma eyeClosureAlerts_cong:
  "alertCallbacks st' = alertCallbacks st \<Longrightarrow> config st' = config st \<Longrightarrow>
     eyeClosureAlerts st' t ear n = eyeClosureAlerts st t ear n"
  by (simp add: eyeClosureAlerts_def triggerAlert_cong [of st' st])

lemma feedFrames_closed:
  assumes "\<forall>f \<in> set fs. eyesClosedIn (config st) f"
  shows "eyeClosureCounter (snd (feedFrames fs st)) = eyeClosureCounter st + length fs
     \<and> config (snd (feedFrames fs st)) = config st
     \<and> alertCallbacks (snd (feedFrames fs st)) = alertCallbacks st
     \<and> length (fst (feedFrames fs st)) = length fs
     \<and> (\<forall>k ear. k < length fs \<longrightarrow> frameAverageEAR (fs ! k) = Some ear \<longrightarrow>
          fst (fst (feedFrames fs st) ! k) = Threw TypeError
          \<and> alertsOfType eye_closure (snd (fst (feedFrames fs st) ! k)) =
              eyeClosureAlerts st (fi_now (fs ! k)) ear (eyeClosureCounter st + k + 1))"
  using assms
proof (induction fs arbitrary: st)
  case Nil
  then show ?case by simp
next
  case (Cons f fs)
  obtain c st1 out where P: "processFrame (fi_face f) (fi_hands f) (fi_width f) (fi_height f)
             (fi_session f) (fi_now f) st = (c, st1, out)"
    by (cases "processFrame (fi_face f) (fi_hands f) (fi_width f) (fi_height f)
             (fi_session f) (fi_now f) st") auto
  have closed: "eyesClosedIn (config st) f" using Cons.prems by simp
  then obtain ear0 where ear0: "frameAverageEAR f = Some ear0"
    by (rule eyesClosedIn_metrics)
  have c: "c = Threw TypeError"
    using closed_frame_step(1) [OF closed ear0] by (simp add: P)
  have cnt: "eyeClosureCounter st1 = eyeClosureCounter st + 1"
    using closed_frame_step(2) [OF closed ear0] by (simp add: P)
  have cfg: "config st1 = config st"
    using closed_frame_step(3) [OF closed ear0] by (simp add: P)
  have cbs: "alertCallbacks st1 = alertCallbacks st"
    using closed_frame_step(4) [OF closed ear0] by (simp add: P)
  have out: "alertsOfType eye_closure out =
      eyeClosureAlerts st (fi_now f) ear0 (eyeClosureCounter st + 1)"
    using closed_frame_step(5) [OF closed ear0] by (simp add: P)
  have rest: "\<forall>g \<in> set fs. eyesClosedIn (config st1) g"
    using Cons.prems cfg by simp
  note IH = Cons.IH [OF rest]
  obtain rs st2 where F: "feedFrames fs st1 = (rs, st2)"
    by (cases "feedFrames fs st1") auto
  have FF: "feedFrames (f # fs) st = ((c, out) # rs, st2)"
    by (simp add: P F)
  have IH1: "eyeClosureCounter st2 = eyeClosureCounter st1 + length fs"
    and IH2: "config st2 = config st1"
    and IH3: "alertCallbacks st2 = alertCallbacks st1"
    and IH4: "length rs = length fs"
    using IH by (simp_all add: F)
  have IH5: "\<And>j ear. j < length fs \<Longrightarrow> frameAverageEAR (fs ! j) = Some ear \<Longrightarrow>
          fst (rs ! j) = Threw TypeError
          \<and> alertsOfType eye_closure (snd (rs ! j)) =
              eyeClosureAlerts st1 (fi_now (fs ! j)) ear (eyeClosureCounter st1 + j + 1)"
    using IH by (simp add: F)
  have tail: "fst (((c, out) # rs) ! k) = Threw TypeError
          \<and> alertsOfType eye_closure (snd (((c, out) # rs) ! k)) =
              eyeClosureAlerts st (fi_now ((f # fs) ! k)) ear (eyeClosureCounter st + k + 1)"
    if k: "k < length (f # fs)" and e: "frameAverageEAR ((f # fs) ! k) = Some ear" for k ear
  proof (cases k)
    case 0
    then show ?thesis using c out e ear0 by simp
  next
    case (Suc j)
    have j: "j < length fs" using k Suc by simp
    have ej: "frameAverageEAR (fs ! j) = Some ear" using e Suc by simp
    show ?thesis
      using IH5 [OF j ej] by (simp add: Suc cnt eyeClosureAlerts_cong [OF cbs cfg])
  qed
  have a: "eyeClosureCounter st2 = eyeClosureCounter st + length (f # fs)"
    using IH1 cnt by simp
  have b: "config st2 = config st" using IH2 cfg by simp
  have d: "alertCallbacks st2 = alertCallbacks st" using IH3 cbs by simp
  have e: "length ((c, out) # rs) = length (f # fs)" using IH4 by simp
  show ?case
    unfolding FF fst_conv snd_conv
  proof (intro conjI allI impI)
    show "eyeClosureCounter st2 = eyeClosureCounter st + length (f # fs)" by (rule a)
    show "config st2 = config st" by (rule b)
    show "alertCallbacks st2 = alertCallbacks st" by (rule d)
    show "length ((c, out) # rs) = length (f # fs)" by (rule e)
  next
    fix k ear
    assume k: "k < length (f # fs)" and e: "frameAverageEAR ((f # fs) ! k) = Some ear"
    from tail [OF k e] show "fst (((c, out) # rs) ! k) = Threw TypeError" by (rule conjunct1)
    from tail [OF k e] show "alertsOfType eye_closure (snd (((c, out) # rs) ! k)) =
              eyeClosureAlerts st (fi_now ((f # fs) ! k)) ear (eyeClosureCounter st + k + 1)"
      by (rule conjunct2)
  qed
qed

subsection \<open>Alert emission\<close>

lemma triggerAlert_length:
  "length (snd (triggerAlert now ty sev msg conf meta st)) = length (alertCallbacks st)"
  by (simp add: triggerAlert_def Let_def)

text \<open>
  Claim C1, as stated: two \<^verbatim>\<open>triggerAlert\<close> calls for one cooldown-gated category within
  the cooldown window dispatch exactly one alert. It fails: the subscriber of
  \<open>subscribedEngine\<close> receives both moderate eye-closure alerts of two calls made one
  millisecond apart.
\<close>

theorem triggerAlert_two_calls_two_alerts:
  "triggerAlerts [eyeClosedCall 1000, eyeClosedCall 1001] subscribedEngine =
     [(0, fst (triggerAlert 1000 eye_closure Moderate ''Warning: Eyes Closed'' (Some 0.8) None
                 subscribedEngine)),
      (0, fst (triggerAlert 1001 eye_closure Moderate ''Warning: Eyes Closed'' (Some 0.8) None
                 subscribedEngine))]"
  by (simp add: eyeClosedCall_def subscribedEngine_def addAlertCallback_def
      newDetectionEngine_def triggerAlert_def Let_def)

text \<open>
  Claim C1, amended: \<^verbatim>\<open>triggerAlert\<close> has no cooldown gate for any category. Every call,
  whatever its time and its category, delivers its alert exactly once to each registered
  subscriber, and leaves the alert carrying the type, severity and time of the call; so
  any sequence of calls yields as many alerts per subscriber as there are calls.
\<close>

theorem triggerAlert_every_call_dispatches:
  "snd (triggerAlert now ty sev msg conf meta st) =
     map (\<lambda>cb. (cb, fst (triggerAlert now ty sev msg conf meta st))) (alertCallbacks st)
   \<and> alert_type (fst (triggerAlert now ty sev msg conf meta st)) = ty
   \<and> alert_severity (fst (triggerAlert now ty sev msg conf meta st)) = sev
   \<and> timestamp (fst (triggerAlert now ty sev msg conf meta st)) = now
   \<and> length (triggerAlerts calls st) = length calls * length (alertCallbacks st)"
proof -
  have "length (triggerAlerts calls st) = length calls * length (alertCallbacks st)"
    by (induction calls) (simp_all add: triggerAlert_length)
  then show ?thesis
    by (simp add: triggerAlert_def Let_def)
qed

subsection \<open>Aspect ratios\<close>






subsection \<open>Eye closure and blinks\<close>

lemma frame_metrics_closed:
  assumes "frameAverageEAR f = Some ear" "frameIrisVisible f = Some False" "ear < earThreshold cfg"
  shows "eyesClosedIn cfg f"
  using assms
  by (auto simp: eyesClosedIn_def frameAverageEAR_def frameIrisVisible_def split: option.splits)

lemma frameOf_sample_metrics:
  "frameAverageEAR (frameOf (sampleFace lid jaw nx) t) = Some (\<bar>500 - lid * 1000\<bar> / 100)"
  "frameIrisVisible (frameOf (sampleFace lid jaw nx) t) = Some False"
  by (simp_all add: frameAverageEAR_def frameIrisVisible_def frameOf_def sampleFace_def
      faceMetrics_sample)

lemma framesOf_nth: "k < n \<Longrightarrow> framesOf face n ! k = frameOf face (int k * 33)"
  by (simp add: framesOf_def)

lemma set_framesOf: "f \<in> set (framesOf face n) \<Longrightarrow> \<exists>t. f = frameOf face t"
  by (auto simp: framesOf_def)



lemma closed_frame_blink:
  assumes "eyesClosedIn (config st) f" and "fi_now f - blinkTimer st \<le> 60000"
  shows "blinkCounter (fst (snd (processFrame (fi_face f) (fi_hands f) (fi_width f)
            (fi_height f) (fi_session f) (fi_now f) st))) = blinkCounter st"
    and "blinkTimer (fst (snd (processFrame (fi_face f) (fi_hands f) (fi_width f)
            (fi_height f) (fi_session f) (fi_now f) st))) = blinkTimer st"
proof -
  from assms(1) obtain face lms m where m: "fi_face f = Some face"
    "face_landmarks face = Some lms" "faceMetrics lms (fi_width f) (fi_height f) = Some m"
    "fm_averageEAR m < earThreshold (config st)" "\<not> fm_irisVisible m"
    "frameAverageEAR f = Some (fm_averageEAR m)"
    by (rule eyesClosedIn_metrics)
  show "blinkCounter (fst (snd (processFrame (fi_face f) (fi_hands f) (fi_width f)
            (fi_height f) (fi_session f) (fi_now f) st))) = blinkCounter st"
    using m(4,5) assms(2)
    by (simp add: frame_step [OF m(1-3)] threw_def blinkRateMonitoring_eng
        eyeClosureDetection_eng eyeClosureDetection_blink)
  show "blinkTimer (fst (snd (processFrame (fi_face f) (fi_hands f) (fi_width f)
            (fi_height f) (fi_session f) (fi_now f) st))) = blinkTimer st"
    using assms(2)
    by (simp add: frame_step [OF m(1-3)] threw_def blinkRateMonitoring_eng
        eyeClosureDetection_eng)
qed

lemma feedFrames_closed_blink:
  assumes "\<forall>f \<in> set fs. eyesClosedIn (config st) f \<and> fi_now f - blinkTimer st \<le> 60000"
  shows "blinkCounter (snd (feedFrames fs st)) = blinkCounter st
     \<and> blinkTimer (snd (feedFrames fs st)) = blinkTimer st"
  using assms
proof (induction fs arbitrary: st)
  case Nil
  then show ?case by simp
next
  case (Cons f fs)
  obtain c st1 out where P: "processFrame (fi_face f) (fi_hands f) (fi_width f) (fi_height f)
             (fi_session f) (fi_now f) st = (c, st1, out)"
    by (cases "processFrame (fi_face f) (fi_hands f) (fi_width f) (fi_height f)
             (fi_session f) (fi_now f) st") auto
  have closed: "eyesClosedIn (config st) f" and within: "fi_now f - blinkTimer st \<le> 60000"
    using Cons.prems by simp_all
  obtain ear0 where ear0: "frameAverageEAR f = Some ear0"
    using closed by (rule eyesClosedIn_metrics)
  have cfg: "config st1 = config st"
    using closed_frame_step(3) [OF closed ear0] by (simp add: P)
  have bc: "blinkCounter st1 = blinkCounter st"
    using closed_frame_blink(1) [OF closed within] by (simp add: P)
  have bt: "blinkTimer st1 = blinkTimer st"
    using closed_frame_blink(2) [OF closed within] by (simp add: P)
  have rest: "\<forall>g \<in> set fs. eyesClosedIn (config st1) g \<and> fi_now g - blinkTimer st1 \<le> 60000"
    using Cons.prems cfg bt by simp
  obtain rs st2 where F: "feedFrames fs st1 = (rs, st2)"
    by (cases "feedFrames fs st1") auto
  have "blinkCounter st2 = blinkCounter st1" and "blinkTimer st2 = blinkTimer st1"
    using Cons.IH [OF rest] by (simp_all add: F)
  then show ?case
    by (simp add: P F bc bt)
qed

lemma subscribedEngine_fields:
  "config subscribedEngine = DEFAULT_CONFIG"
  "eyeClosureCounter subscribedEngine = 0"
  "blinkCounter subscribedEngine = 0"
  "yawnCounter subscribedEngine = 0"
  "blinkTimer subscribedEngine = 0"
  "alertCallbacks subscribedEngine = [0]"
  "isCalibrated subscribedEngine = False"
  by (simp_all add: subscribedEngine_def addAlertCallback_def newDetectionEngine_def
      spread_def noOverrides_def)

lemma DEFAULT_CONFIG_fields:
  "earThreshold DEFAULT_CONFIG = 0.140"
  "eyeClosedFramesThreshold DEFAULT_CONFIG = 9"
  "blinkRateThreshold DEFAULT_CONFIG = 5"
  "marThreshold DEFAULT_CONFIG = 0.6"
  "yawnThreshold DEFAULT_CONFIG = 3"
  by (simp_all add: DEFAULT_CONFIG_def)

lemma closed_sample_frames:
  assumes "f \<in> set (framesOf (sampleFace 0.51 jaw nx) n)" and "n \<le> 1000"
  shows "eyesClosedIn DEFAULT_CONFIG f" and "fi_now f - 0 \<le> 60000"
proof -
  from assms obtain i where i: "i < n" "f = frameOf (sampleFace 0.51 jaw nx) (int i * 33)"
    by (auto simp: framesOf_def)
  show "eyesClosedIn DEFAULT_CONFIG f"
    unfolding i
    by (rule frame_metrics_closed [where ear = "0.10"])
      (simp_all add: frameOf_sample_metrics DEFAULT_CONFIG_fields)
  show "fi_now f - 0 \<le> 60000"
    using i assms(2) by (simp add: frameOf_def)
qed

lemma after_closed_sample_frames:
  assumes "n \<le> 1000" and "st = snd (feedFrames (framesOf (sampleFace 0.51 jaw nx) n) subscribedEngine)"
  shows "eyeClosureCounter st = n" "config st = DEFAULT_CONFIG" "alertCallbacks st = [0]"
    "blinkCounter st = 0" "blinkTimer st = 0"
proof -
  have a: "\<forall>f \<in> set (framesOf (sampleFace 0.51 jaw nx) n). eyesClosedIn (config subscribedEngine) f"
    using closed_sample_frames(1) [OF _ assms(1)] by (simp add: subscribedEngine_fields)
  have b: "\<forall>f \<in> set (framesOf (sampleFace 0.51 jaw nx) n).
      eyesClosedIn (config subscribedEngine) f \<and> fi_now f - blinkTimer subscribedEngine \<le> 60000"
    using closed_sample_frames [OF _ assms(1)] by (simp add: subscribedEngine_fields)
  show "eyeClosureCounter st = n" "config st = DEFAULT_CONFIG" "alertCallbacks st = [0]"
    using feedFrames_closed [OF a]
    by (simp_all add: assms(2) subscribedEngine_fields framesOf_def)
  show "blinkCounter st = 0" "blinkTimer st = 0"
    using feedFrames_closed_blink [OF b] by (simp_all add: assms(2) subscribedEngine_fields)
qed

text \<open>
  Nothing stops the moderate tier from firing again: with the default thresholds every
  further closed frame up to the thirtieth delivers one more moderate alert.
\<close>

lemma closed_frames_keep_alerting:
  "alertsOfType eye_closure
     (snd (fst (feedFrames (framesOf closedEyesFace 12) subscribedEngine) ! 10)) =
     [(0, \<lparr> alert_id = 330, alert_type = eye_closure, alert_severity = Moderate,
             message = ''Warning: Eyes Closed'', timestamp = 330, confidenceScore = Some 0.8,
             metadata = Some (EyeMeta 0.10 11), sessionId = [] \<rparr>)]"
proof -
  let ?fs = "framesOf (sampleFace 0.51 0.6 0.5) 12"
  have a: "\<forall>f \<in> set ?fs. eyesClosedIn (config subscribedEngine) f"
    using closed_sample_frames(1) [of _ "0.6" "0.5" 12] by (simp add: subscribedEngine_fields)
  have n: "?fs ! 10 = frameOf (sampleFace 0.51 0.6 0.5) 330"
    by (simp add: framesOf_nth)
  have e: "frameAverageEAR (?fs ! 10) = Some 0.10"
    unfolding n by (simp add: frameOf_sample_metrics)
  have l: "(10::nat) < length ?fs" by (simp add: framesOf_def)
  from feedFrames_closed [OF a] l e
  have "alertsOfType eye_closure (snd (fst (feedFrames ?fs subscribedEngine) ! 10)) =
          eyeClosureAlerts subscribedEngine (fi_now (?fs ! 10)) 0.10
            (eyeClosureCounter subscribedEngine + 10 + 1)"
    by blast
  then show ?thesis
    unfolding closedEyesFace_def n
    by (simp add: frameOf_def eyeClosureAlerts_def subscribedEngine_fields
        DEFAULT_CONFIG_fields triggerAlert_def Let_def)
qed



text \<open>
  Claim C2, as stated: of twelve consecutive frames with average EAR 0.10 and the iris
  hidden, only frame 10 emits a moderate eye-closure alert, exactly one. It fails: on the
  default engine with one subscriber, calls 10, 11 and 12 each deliver a moderate
  eye-closure alert, three in all.
\<close>

theorem twelve_closed_frames_three_alerts:
  "alertsOfType eye_closure
     (snd (fst (feedFrames (framesOf closedEyesFace 12) subscribedEngine) ! 9)) =
     [(0, \<lparr> alert_id = 297, alert_type = eye_closure, alert_severity = Moderate,
             message = ''Warning: Eyes Closed'', timestamp = 297, confidenceScore = Some 0.8,
             metadata = Some (EyeMeta 0.10 10), sessionId = [] \<rparr>)]
   \<and> alertsOfType eye_closure
     (snd (fst (feedFrames (framesOf closedEyesFace 12) subscribedEngine) ! 10)) =
     [(0, \<lparr> alert_id = 330, alert_type = eye_closure, alert_severity = Moderate,
             message = ''Warning: Eyes Closed'', timestamp = 330, confidenceScore = Some 0.8,
             metadata = Some (EyeMeta 0.10 11), sessionId = [] \<rparr>)]
   \<and> alertsOfType eye_closure
     (snd (fst (feedFrames (framesOf closedEyesFace 12) subscribedEngine) ! 11)) =
     [(0, \<lparr> alert_id = 363, alert_type = eye_closure, alert_severity = Moderate,
             message = ''Warning: Eyes Closed'', timestamp = 363, confidenceScore = Some 0.8,
             metadata = Some (EyeMeta 0.10 12), sessionId = [] \<rparr>)]"
proof -
  let ?fs = "framesOf (sampleFace 0.51 0.6 0.5) 12"
  have a: "\<forall>f \<in> set ?fs. eyesClosedIn (config subscribedEngine) f"
    using closed_sample_frames(1) [of _ "0.6" "0.5" 12] by (simp add: subscribedEngine_fields)
  have n: "?fs ! k = frameOf (sampleFace 0.51 0.6 0.5) (int k * 33)" if "k < 12" for k
    using that by (rule framesOf_nth)
  have e: "frameAverageEAR (?fs ! k) = Some 0.10" if "k < 12" for k
    unfolding n [OF that] by (simp add: frameOf_sample_metrics)
  have l: "k < length ?fs" if "k < 12" for k
    using that by (simp add: framesOf_def)
  have r: "alertsOfType eye_closure (snd (fst (feedFrames ?fs subscribedEngine) ! k)) =
          eyeClosureAlerts subscribedEngine (int k * 33) 0.10 (k + 1)" if "k < 12" for k
  proof -
    from feedFrames_closed [OF a] l [OF that] e [OF that]
    have "alertsOfType eye_closure (snd (fst (feedFrames ?fs subscribedEngine) ! k)) =
          eyeClosureAlerts subscribedEngine (fi_now (?fs ! k)) 0.10
            (eyeClosureCounter subscribedEngine + k + 1)"
      by blast
    then show ?thesis
      unfolding n [OF that] by (simp add: frameOf_def subscribedEngine_fields)
  qed
  show ?thesis
    unfolding closedEyesFace_def
    using r [of 9] r [of 10] r [of 11]
    by (simp add: eyeClosureAlerts_def subscribedEngine_fields DEFAULT_CONFIG_fields
        triggerAlert_def Let_def)
qed

text \<open>
  Claim C2, amended: with \<open>eyeClosedFramesThreshold = 9\<close> and \<open>earThreshold = 0.140\<close>,
  consecutive frames with average EAR 0.10 and the iris hidden, fed to an engine whose
  eye-closure counter is 0, give no eye-closure alert in calls 1 to 9, exactly one
  moderate alert per subscriber in every call from the 10th to the 30th (there is no
  cooldown: twelve frames give three, at frames 10, 11 and 12), and exactly one severe
  alert per subscriber in every call beyond the 30th. No tier resets the counter: after
  \<open>n\<close> frames it is \<open>n\<close>, so 12 after frame 12. (Each of these calls ends in the
  \<^verbatim>\<open>TypeError\<close> of \<open>calculateMAR_of_MOUTH\<close>; the counter and the alert are produced
  before it, see \<open>feedFrames_closed\<close>.)
\<close>

theorem closed_frames_alert_tiers:
  assumes thr: "eyeClosedFramesThreshold (config st) = 9"
    and ear: "earThreshold (config st) = 0.140"
    and start: "eyeClosureCounter st = 0"
    and closed: "\<forall>f \<in> set fs. frameAverageEAR f = Some 0.10 \<and> frameIrisVisible f = Some False"
  shows "(\<forall>k < length fs.
            alertsOfType eye_closure (snd (fst (feedFrames fs st) ! k)) =
              (if k + 1 \<le> 9 then []
               else if k + 1 \<le> 30 then
                 map (\<lambda>cb. (cb, \<lparr> alert_id = fi_now (fs ! k), alert_type = eye_closure,
                                   alert_severity = Moderate, message = ''Warning: Eyes Closed'',
                                   timestamp = fi_now (fs ! k), confidenceScore = Some 0.8,
                                   metadata = Some (EyeMeta 0.10 (k + 1)), sessionId = [] \<rparr>))
                   (alertCallbacks st)
               else
                 map (\<lambda>cb. (cb, \<lparr> alert_id = fi_now (fs ! k), alert_type = eye_closure,
                                   alert_severity = Severe,
                                   message = ''Alert: Eyes Closed Too Long'',
                                   timestamp = fi_now (fs ! k), confidenceScore = Some 0.9,
                                   metadata = Some (EyeMeta 0.10 (k + 1)), sessionId = [] \<rparr>))
                   (alertCallbacks st)))
     \<and> eyeClosureCounter (snd (feedFrames fs st)) = length fs"
proof -
  have all: "\<forall>f \<in> set fs. eyesClosedIn (config st) f"
    using closed ear by (auto intro!: frame_metrics_closed [where ear = "0.10"])
  note F = feedFrames_closed [OF all]
  have ears: "frameAverageEAR (fs ! k) = Some 0.10" if "k < length fs" for k
    using closed that by (metis nth_mem)
  have alerts: "alertsOfType eye_closure (snd (fst (feedFrames fs st) ! k)) =
      eyeClosureAlerts st (fi_now (fs ! k)) 0.10 (k + 1)" if "k < length fs" for k
    using F ears [OF that] that start by simp
  have tiers: "eyeClosureAlerts st t 0.10 (k + 1) =
              (if k + 1 \<le> 9 then []
               else if k + 1 \<le> 30 then
                 map (\<lambda>cb. (cb, \<lparr> alert_id = t, alert_type = eye_closure,
                                   alert_severity = Moderate, message = ''Warning: Eyes Closed'',
                                   timestamp = t, confidenceScore = Some 0.8,
                                   metadata = Some (EyeMeta 0.10 (k + 1)), sessionId = [] \<rparr>))
                   (alertCallbacks st)
               else
                 map (\<lambda>cb. (cb, \<lparr> alert_id = t, alert_type = eye_closure,
                                   alert_severity = Severe,
                                   message = ''Alert: Eyes Closed Too Long'',
                                   timestamp = t, confidenceScore = Some 0.9,
                                   metadata = Some (EyeMeta 0.10 (k + 1)), sessionId = [] \<rparr>))
                   (alertCallbacks st))" for t k
    using thr by (simp add: eyeClosureAlerts_def triggerAlert_def Let_def)
  have final: "eyeClosureCounter (snd (feedFrames fs st)) = length fs"
    using F start by simp
  show ?thesis
    using alerts tiers final by simp
qed

theorem closed_frames_alert_tiers_witness:
  "alertsOfType eye_closure
     (snd (fst (feedFrames (framesOf closedEyesFace 12) subscribedEngine) ! 0)) = []
   \<and> alertsOfType eye_closure
     (snd (fst (feedFrames (framesOf closedEyesFace 12) subscribedEngine) ! 8)) = []
   \<and> alertsOfType eye_closure
     (snd (fst (feedFrames (framesOf closedEyesFace 12) subscribedEngine) ! 11)) =
     [(0, \<lparr> alert_id = 363, alert_type = eye_closure, alert_severity = Moderate,
             message = ''Warning: Eyes Closed'', timestamp = 363, confidenceScore = Some 0.8,
             metadata = Some (EyeMeta 0.10 12), sessionId = [] \<rparr>)]
   \<and> eyeClosureCounter (snd (feedFrames (framesOf closedEyesFace 12) subscribedEngine)) = 12
   \<and> alertsOfType eye_closure
     (snd (fst (feedFrames (framesOf closedEyesFace 32) subscribedEngine) ! 29)) =
     [(0, \<lparr> alert_id = 957, alert_type = eye_closure, alert_severity = Moderate,
             message = ''Warning: Eyes Closed'', timestamp = 957, confidenceScore = Some 0.8,
             metadata = Some (EyeMeta 0.10 30), sessionId = [] \<rparr>)]
   \<and> alertsOfType eye_closure
     (snd (fst (feedFrames (framesOf closedEyesFace 32) subscribedEngine) ! 30)) =
     [(0, \<lparr> alert_id = 990, alert_type = eye_closure, alert_severity = Severe,
             message = ''Alert: Eyes Closed Too Long'', timestamp = 990,
             confidenceScore = Some 0.9, metadata = Some (EyeMeta 0.10 31),
             sessionId = [] \<rparr>)]"
proof -
  have thr: "eyeClosedFramesThreshold (config subscribedEngine) = 9"
    and ear: "earThreshold (config subscribedEngine) = 0.140"
    and start: "eyeClosureCounter subscribedEngine = 0"
    by (simp_all add: subscribedEngine_fields DEFAULT_CONFIG_fields)
  have closed: "\<forall>f \<in> set (framesOf closedEyesFace n).
      frameAverageEAR f = Some 0.10 \<and> frameIrisVisible f = Some False" for n
    by (auto dest!: set_framesOf simp: closedEyesFace_def frameOf_sample_metrics)
  have len: "length (framesOf closedEyesFace n) = n" for n
    by (simp add: framesOf_def)
  note twelve = closed_frames_alert_tiers [OF thr ear start closed [of 12], unfolded len]
  note more = closed_frames_alert_tiers [OF thr ear start closed [of 32], unfolded len]
  have a: "alertsOfType eye_closure
     (snd (fst (feedFrames (framesOf closedEyesFace 12) subscribedEngine) ! 0)) = []"
    using twelve by simp
  have b: "alertsOfType eye_closure
     (snd (fst (feedFrames (framesOf closedEyesFace 12) subscribedEngine) ! 8)) = []"
    using twelve by simp
  have c: "alertsOfType eye_closure
     (snd (fst (feedFrames (framesOf closedEyesFace 12) subscribedEngine) ! 11)) =
     [(0, \<lparr> alert_id = 363, alert_type = eye_closure, alert_severity = Moderate,
             message = ''Warning: Eyes Closed'', timestamp = 363, confidenceScore = Some 0.8,
             metadata = Some (EyeMeta 0.10 12), sessionId = [] \<rparr>)]"
    using twelve by (simp add: subscribedEngine_fields framesOf_nth frameOf_def)
  have d: "eyeClosureCounter (snd (feedFrames (framesOf closedEyesFace 12) subscribedEngine)) = 12"
    using twelve by simp
  have e: "alertsOfType eye_closure
     (snd (fst (feedFrames (framesOf closedEyesFace 32) subscribedEngine) ! 29)) =
     [(0, \<lparr> alert_id = 957, alert_type = eye_closure, alert_severity = Moderate,
             message = ''Warning: Eyes Closed'', timestamp = 957, confidenceScore = Some 0.8,
             metadata = Some (EyeMeta 0.10 30), sessionId = [] \<rparr>)]"
    using more by (simp add: subscribedEngine_fields framesOf_nth frameOf_def)
  have f: "alertsOfType eye_closure
     (snd (fst (feedFrames (framesOf closedEyesFace 32) subscribedEngine) ! 30)) =
     [(0, \<lparr> alert_id = 990, alert_type = eye_closure, alert_severity = Severe,
             message = ''Alert: Eyes Closed Too Long'', timestamp = 990,
             confidenceScore = Some 0.9, metadata = Some (EyeMeta 0.10 31),
             sessionId = [] \<rparr>)]"
    using more by (simp add: subscribedEngine_fields framesOf_nth frameOf_def)
  show ?thesis
    using a b c d e f by simp
qed

subsection \<open>What a call can reach\<close>

text \<open>
  A call with a face never gets past \<^verbatim>\<open>calculateMAR\<close>: it throws there or earlier.
  So a call delivers eye-closure and blink-rate alerts only, and leaves the yawn counter,
  the MAR history, the configuration, the calibration and the subscribers as they were.
\<close>

lemma processFrame_cases:
  obtains (no_face) "processFrame faceResult hs w h sid now st = (Returned (initialResult st), st, [])"
  | (short) "processFrame faceResult hs w h sid now st = (Threw TypeError, st, [])"
  | (face) m where "processFrame faceResult hs w h sid now st =
        threw (blinkRateMonitoring now (eyeClosureDetection now (fm_averageEAR m) (fm_irisVisible m)
             (storeEAR m \<lparr> res = initialResult st, eng = st, sent = [] \<rparr>)))"
proof (cases faceResult)
  case None
  then show ?thesis using no_face by (simp add: processFrame_no_face)
next
  case (Some f)
  show ?thesis
  proof (cases "face_landmarks f")
    case None
    then show ?thesis using no_face Some by (simp add: processFrame_def returned_def)
  next
    case lms: (Some lms)
    show ?thesis
    proof (cases "faceMetrics lms w h")
      case None
      then show ?thesis using short Some lms by (simp add: processFrame_face)
    next
      case m: (Some m)
      then show ?thesis using face [of m] Some lms by (simp add: processFrame_face)
    qed
  qed
qed

lemma processFrame_other_alerts:
  assumes "ty \<noteq> eye_closure" and "ty \<noteq> blink_rate_high"
  shows "alertsOfType ty (snd (snd (processFrame faceResult hs w h sid now st))) = []"
proof (cases rule: processFrame_cases [of faceResult hs w h sid now st])
  case no_face
  then show ?thesis by simp
next
  case short
  then show ?thesis by simp
next
  case (face m)
  then show ?thesis
    using assms
    by (simp add: threw_def blinkRateMonitoring_sent eyeClosureDetection_sent
        alertsOfType_triggerAlert)
qed

lemma processFrame_untouched:
  "yawnCounter (fst (snd (processFrame faceResult hs w h sid now st))) = yawnCounter st"
  "marHistory (fst (snd (processFrame faceResult hs w h sid now st))) = marHistory st"
  "config (fst (snd (processFrame faceResult hs w h sid now st))) = config st"
  "alertCallbacks (fst (snd (processFrame faceResult hs w h sid now st))) = alertCallbacks st"
  "calibrationData (fst (snd (processFrame faceResult hs w h sid now st))) = calibrationData st"
  "isCalibrated (fst (snd (processFrame faceResult hs w h sid now st))) = isCalibrated st"
  by (cases rule: processFrame_cases [of faceResult hs w h sid now st];
      simp add: threw_def blinkRateMonitoring_eng eyeClosureDetection_eng)+

lemma processFrame_face_throws:
  assumes "face_landmarks f = Some lms"
  shows "fst (processFrame (Some f) hs w h sid now st) = Threw TypeError"
  using assms by (simp add: processFrame_face threw_def split: option.splits)

lemma feedFrames_untouched:
  "yawnCounter (snd (feedFrames fs st)) = yawnCounter st
   \<and> length (fst (feedFrames fs st)) = length fs
   \<and> (\<forall>k < length fs. \<forall>ty. ty \<noteq> eye_closure \<longrightarrow> ty \<noteq> blink_rate_high \<longrightarrow>
         alertsOfType ty (snd (fst (feedFrames fs st) ! k)) = [])"
proof (induction fs arbitrary: st)
  case Nil
  then show ?case by simp
next
  case (Cons f fs)
  obtain c st1 out where P: "processFrame (fi_face f) (fi_hands f) (fi_width f) (fi_height f)
             (fi_session f) (fi_now f) st = (c, st1, out)"
    by (cases "processFrame (fi_face f) (fi_hands f) (fi_width f) (fi_height f)
             (fi_session f) (fi_now f) st") auto
  obtain rs st2 where F: "feedFrames fs st1 = (rs, st2)"
    by (cases "feedFrames fs st1") auto
  have y: "yawnCounter st1 = yawnCounter st"
    using processFrame_untouched(1) [of "fi_face f" "fi_hands f" "fi_width f" "fi_height f"
        "fi_session f" "fi_now f" st] by (simp add: P)
  have o: "alertsOfType ty out = []" if "ty \<noteq> eye_closure" "ty \<noteq> blink_rate_high" for ty
    using processFrame_other_alerts [OF that, of "fi_face f" "fi_hands f" "fi_width f"
        "fi_height f" "fi_session f" "fi_now f" st] by (simp add: P)
  have IH1: "yawnCounter st2 = yawnCounter st1" and IH2: "length rs = length fs"
    using Cons.IH [of st1] by (simp_all add: F)
  have IH3: "alertsOfType ty (snd (rs ! j)) = []"
    if "j < length fs" "ty \<noteq> eye_closure" "ty \<noteq> blink_rate_high" for j ty
    using Cons.IH [of st1] that by (simp add: F)
  have tail: "alertsOfType ty (snd (((c, out) # rs) ! k)) = []"
    if "k < length (f # fs)" "ty \<noteq> eye_closure" "ty \<noteq> blink_rate_high" for k ty
  proof (cases k)
    case 0
    then show ?thesis using o that by simp
  next
    case (Suc j)
    then show ?thesis using IH3 [of j ty] that by simp
  qed
  show ?case
    unfolding feedFrames.simps P F prod.case fst_conv snd_conv
  proof (intro conjI allI impI)
    show "yawnCounter st2 = yawnCounter st" using IH1 y by simp
    show "length ((c, out) # rs) = length (f # fs)" using IH2 by simp
  next
    fix k ty
    assume "k < length (f # fs)" "ty \<noteq> eye_closure" "ty \<noteq> blink_rate_high"
    then show "alertsOfType ty (snd (((c, out) # rs) ! k)) = []" by (rule tail)
  qed
qed


subsection \<open>No face\<close>

text \<open>
  Claim C6: for every engine state, a call with no face (a null face result, or a face
  result without landmarks) returns the result object with its neutral defaults: every EAR
  and the MAR 0, the gaze at the centre \<open>(0.5, 0.5)\<close>, every head-pose, drowsiness and
  distraction level \<^verbatim>\<open>'none'\<close> (the eye-closure severity, which has no such value, at
  \<^verbatim>\<open>'normal'\<close>) and every flag false. It delivers no alert, does not throw, and leaves
  the engine as it was.
\<close>

theorem no_face_neutral_result:
  "processFrame None hs w h sid now st = (Returned (initialResult st), st, [])
   \<and> processFrame (Some \<lparr> face_landmarks = None \<rparr>) hs w h sid now st =
       (Returned (initialResult st), st, [])
   \<and> leftEAR (eyeClosure (initialResult st)) = 0
   \<and> rightEAR (eyeClosure (initialResult st)) = 0
   \<and> averageEAR (eyeClosure (initialResult st)) = 0
   \<and> \<not> isEyesClosed (eyeClosure (initialResult st))
   \<and> eye_severity (eyeClosure (initialResult st)) = Normal
   \<and> MAR (mouth (initialResult st)) = 0
   \<and> \<not> isYawning (mouth (initialResult st))
   \<and> gaze_x (gaze (initialResult st)) = Fin 0.5
   \<and> gaze_y (gaze (initialResult st)) = 0.5
   \<and> deviation (gaze (initialResult st)) = Fin 0
   \<and> \<not> lookingAway (gaze (initialResult st))
   \<and> turn (headPose (initialResult st)) = LevelNone
   \<and> tilt (headPose (initialResult st)) = LevelNone
   \<and> droop (headPose (initialResult st)) = LevelNone
   \<and> hands (initialResult st) =
       \<lparr> nearEar = False, nearFace = False, possibleTexting = False, phoneUsage = False \<rparr>
   \<and> level (drowsinessR (initialResult st)) = LevelNone
   \<and> level (distractionR (initialResult st)) = LevelNone"
  by (simp add: processFrame_def returned_def initialResult_def)

subsection \<open>Reset\<close>

text \<open>
  Claim C10: for every engine state, \<^verbatim>\<open>reset()\<close> sets the three counters to 0, restarts
  the blink window at the current time and fills the MAR history with zeros (all 30
  entries of an engine built by the constructor), and leaves the configuration, the
  calibration snapshot, the \<open>isCalibrated\<close> flag and the list of alert callbacks
  unchanged.
\<close>

theorem reset_clears_counters_only:
  "eyeClosureCounter (reset now st) = 0
   \<and> blinkCounter (reset now st) = 0
   \<and> yawnCounter (reset now st) = 0
   \<and> blinkTimer (reset now st) = now
   \<and> marHistory (reset now st) = replicate (length (marHistory st)) 0
   \<and> (length (marHistory st) = 30 \<longrightarrow> marHistory (reset now st) = replicate 30 0)
   \<and> config (reset now st) = config st
   \<and> calibrationData (reset now st) = calibrationData st
   \<and> isCalibrated (reset now st) = isCalibrated st
   \<and> alertCallbacks (reset now st) = alertCallbacks st"
  by (simp add: reset_def map_replicate_const)

theorem reset_clears_counters_only_witness:
  "length (marHistory calibratedEngine) = 30
   \<and> marHistory (reset 5000 calibratedEngine) = replicate 30 0
   \<and> blinkTimer (reset 5000 calibratedEngine) = 5000
   \<and> isCalibrated (reset 5000 calibratedEngine)
   \<and> calibrationData (reset 5000 calibratedEngine) =
       Some \<lparr> gazeCenter = 0.5, headCenterX = 0.5, headCenterY = 0.6 \<rparr>
   \<and> alertCallbacks (reset 5000 calibratedEngine) = [0]
   \<and> config (reset 5000 calibratedEngine) = DEFAULT_CONFIG"
proof -
  have l: "length (marHistory calibratedEngine) = 30"
    by (simp add: calibratedEngine_def setCalibration_def subscribedEngine_def
        addAlertCallback_def newDetectionEngine_def)
  have c: "isCalibrated calibratedEngine"
    "calibrationData calibratedEngine =
       Some \<lparr> gazeCenter = 0.5, headCenterX = 0.5, headCenterY = 0.6 \<rparr>"
    "alertCallbacks calibratedEngine = [0]" "config calibratedEngine = DEFAULT_CONFIG"
    by (simp_all add: calibratedEngine_def setCalibration_def subscribedEngine_def
        addAlertCallback_def newDetectionEngine_def spread_def noOverrides_def)
  show ?thesis
    using reset_clears_counters_only [of 5000 calibratedEngine] l c by simp
qed

subsection \<open>The yawn counter\<close>

lemma yawningDetection_counter:
  "yawnCounter (eng (yawningDetection now mar s)) =
     (let n = (if mar > marThreshold (config (eng s)) then yawnCounter (eng s) + 1
               else yawnCounter (eng s))
      in if real n > yawnThreshold (config (eng s)) then 0 else n)"
  by (simp add: yawningDetection_def Let_def)

lemma yawningDetection_sent:
  "sent (yawningDetection now mar s) =
     sent s @
     (let n = (if mar > marThreshold (config (eng s)) then yawnCounter (eng s) + 1
               else yawnCounter (eng s))
      in if real n > yawnThreshold (config (eng s))
         then snd (triggerAlert now yawning Moderate ''Warning: Yawning'' (Some 0.8)
                     (Some (YawnMeta mar n)) (eng s))
         else [])"
  by (simp add: yawningDetection_def Let_def sent_triggerAlertIn triggerAlert_def)

lemma yawningDetection_marHistory:
  "length (marHistory (eng (yawningDetection now mar s))) = length (marHistory (eng s))"
  by (simp add: yawningDetection_def Let_def)

subsection \<open>Frames that leave the counter alone\<close>

lemma processFrame_missing_landmarks:
  "processFrame (Some \<lparr> face_landmarks = None \<rparr>) hs w h sid now st =
     (Returned (initialResult st), st, [])"
  by (simp add: processFrame_def returned_def)

lemma feedFrames_append_engine:
  "snd (feedFrames (fs @ gs) st) = snd (feedFrames gs (snd (feedFrames fs st)))"
proof (induction fs arbitrary: st)
  case Nil
  then show ?case by simp
next
  case (Cons f fs)
  obtain c st1 out where P: "processFrame (fi_face f) (fi_hands f) (fi_width f) (fi_height f)
             (fi_session f) (fi_now f) st = (c, st1, out)"
    by (cases "processFrame (fi_face f) (fi_hands f) (fi_width f) (fi_height f)
             (fi_session f) (fi_now f) st") auto
  obtain rs st2 where F: "feedFrames fs st1 = (rs, st2)"
    by (cases "feedFrames fs st1") auto
  obtain rs' st3 where G: "feedFrames (fs @ gs) st1 = (rs', st3)"
    by (cases "feedFrames (fs @ gs) st1") auto
  have "st3 = snd (feedFrames gs st2)"
    using Cons.IH [of st1] by (simp add: F G)
  then show ?case
    by (simp add: P F G)
qed

text \<open>
  Claim C9, as stated: each per-signal counter decays or resets on every frame on which
  its condition is false. It fails for the eye-closure counter: after five closed-eye
  frames the counter is 5; a frame without a face, on which the eye-closure condition
  does not hold, returns early with \<open>isEyesClosed\<close> false and \<open>closureFrames\<close> 5
  and leaves the counter at 5.
\<close>

theorem no_face_keeps_eye_counter:
  "eyeClosureCounter (snd (feedFrames (framesOf closedEyesFace 5) subscribedEngine)) = 5
   \<and> \<not> eyesClosedIn (config (snd (feedFrames (framesOf closedEyesFace 5) subscribedEngine)))
          (noFaceFrame 165)
   \<and> eyeClosureCounter (snd (feedFrames (framesOf closedEyesFace 5 @ [noFaceFrame 165])
          subscribedEngine)) = 5
   \<and> fst (feedFrames [noFaceFrame 165]
          (snd (feedFrames (framesOf closedEyesFace 5) subscribedEngine))) =
       [(Returned (initialResult (snd (feedFrames (framesOf closedEyesFace 5) subscribedEngine))),
         [])]
   \<and> closureFrames (eyeClosure (initialResult
          (snd (feedFrames (framesOf closedEyesFace 5) subscribedEngine)))) = 5
   \<and> \<not> isEyesClosed (eyeClosure (initialResult
          (snd (feedFrames (framesOf closedEyesFace 5) subscribedEngine))))"
proof -
  define st5 where "st5 = snd (feedFrames (framesOf closedEyesFace 5) subscribedEngine)"
  note f5 = after_closed_sample_frames [OF _ st5_def [unfolded closedEyesFace_def], simplified]
  note app = feedFrames_append_engine
  have one: "feedFrames [noFaceFrame 165] st5 = ([(Returned (initialResult st5), [])], st5)"
    by (simp add: noFaceFrame_def processFrame_no_face)
  have "eyeClosureCounter st5 = 5" by (simp add: f5)
  moreover have "\<not> eyesClosedIn (config st5) (noFaceFrame 165)"
    by (simp add: eyesClosedIn_def noFaceFrame_def)
  moreover have "eyeClosureCounter (snd (feedFrames (framesOf closedEyesFace 5 @ [noFaceFrame 165])
          subscribedEngine)) = 5"
  proof -
    have "snd (feedFrames (framesOf closedEyesFace 5 @ [noFaceFrame 165]) subscribedEngine) = st5"
      by (simp only: app st5_def [symmetric] one snd_conv)
    then show ?thesis by (simp add: f5)
  qed
  moreover have "closureFrames (eyeClosure (initialResult st5)) = 5"
    "\<not> isEyesClosed (eyeClosure (initialResult st5))"
    by (simp_all add: initialResult_def f5)
  ultimately show ?thesis
    using one unfolding st5_def by simp
qed

text \<open>
  Claim C9, amended: the eye-closure counter is reset to 0 by every call whose face
  yields its metrics and whose eye-closure condition is false. A call without a face (a
  null face result, or one without landmarks) changes nothing in the engine: every
  counter keeps its value, so a run of closed-eye frames continues across it.
\<close>

theorem eye_counter_reset_needs_a_face:
  assumes face: "fi_face f = Some face" "face_landmarks face = Some lms"
    and m: "faceMetrics lms (fi_width f) (fi_height f) = Some m"
    and reopened: "\<not> eyesClosedIn (config st) f"
  shows "eyeClosureCounter (fst (snd (processFrame (fi_face f) (fi_hands f) (fi_width f)
            (fi_height f) (fi_session f) (fi_now f) st))) = 0
     \<and> fst (snd (processFrame None hs w h sid now st)) = st
     \<and> fst (snd (processFrame (Some \<lparr> face_landmarks = None \<rparr>) hs w h sid now st)) = st"
proof -
  have c: "\<not> (fm_averageEAR m < earThreshold (config st) \<and> \<not> fm_irisVisible m)"
    using reopened face m by (simp add: eyesClosedIn_def)
  have "eyeClosureCounter (fst (snd (processFrame (fi_face f) (fi_hands f) (fi_width f)
            (fi_height f) (fi_session f) (fi_now f) st))) = 0"
    using c
    by (simp add: frame_step [OF face m] threw_def blinkRateMonitoring_eng
        eyeClosureDetection_counter)
  then show ?thesis
    by (simp add: processFrame_no_face processFrame_missing_landmarks)
qed

theorem eye_counter_reset_needs_a_face_witness:
  "eyeClosureCounter (snd (feedFrames (framesOf closedEyesFace 5) subscribedEngine)) = 5
   \<and> \<not> eyesClosedIn (config (snd (feedFrames (framesOf closedEyesFace 5) subscribedEngine)))
          (frameOf openEyesFace 165)
   \<and> eyeClosureCounter (fst (snd (processFrame (Some openEyesFace) [] 1000 1000 ''session'' 165
          (snd (feedFrames (framesOf closedEyesFace 5) subscribedEngine))))) = 0
   \<and> fst (snd (processFrame None [] 1000 1000 ''session'' 165
          (snd (feedFrames (framesOf closedEyesFace 5) subscribedEngine)))) =
       snd (feedFrames (framesOf closedEyesFace 5) subscribedEngine)"
proof -
  define st5 where "st5 = snd (feedFrames (framesOf closedEyesFace 5) subscribedEngine)"
  note f5 = after_closed_sample_frames [OF _ st5_def [unfolded closedEyesFace_def], simplified]
  let ?m = "\<lparr> fm_nose = pt 0.5 0.6, fm_faceCenter = (0.5 * 1000, 600),
            fm_leftEAR = \<bar>500 - 0.53 * 1000\<bar> / 100, fm_rightEAR = \<bar>500 - 0.53 * 1000\<bar> / 100,
            fm_averageEAR = \<bar>500 - 0.53 * 1000\<bar> / 100, fm_irisCenter = Center 500 600,
            fm_irisVisible = False \<rparr>"
  have face: "fi_face (frameOf openEyesFace 165) = Some openEyesFace"
    by (simp add: frameOf_def)
  have lms: "face_landmarks openEyesFace = Some (map (facePoint 0.53 0.6 0.5) [0..<478])"
    by (simp add: openEyesFace_def sampleFace_def)
  have m: "faceMetrics (map (facePoint 0.53 0.6 0.5) [0..<478])
             (fi_width (frameOf openEyesFace 165)) (fi_height (frameOf openEyesFace 165)) = Some ?m"
    by (simp add: frameOf_def faceMetrics_sample)
  have opened: "\<not> eyesClosedIn (config st5) (frameOf openEyesFace 165)"
    using face lms m by (simp add: eyesClosedIn_def f5 DEFAULT_CONFIG_fields)
  have "eyeClosureCounter st5 = 5" by (simp add: f5)
  then show ?thesis
    using eye_counter_reset_needs_a_face [OF face lms m opened, of "[]" 1000 1000 "''session''" 165]
      opened
    unfolding st5_def by (simp add: frameOf_def)
qed

subsection \<open>Alerts behind the mouth aspect ratio\<close>

lemma calibratedEngine_fields:
  "config calibratedEngine = DEFAULT_CONFIG"
  "eyeClosureCounter calibratedEngine = 0"
  "blinkCounter calibratedEngine = 0"
  "yawnCounter calibratedEngine = 0"
  "blinkTimer calibratedEngine = 0"
  "alertCallbacks calibratedEngine = [0]"
  "isCalibrated calibratedEngine = True"
  "calibrationData calibratedEngine =
     Some \<lparr> gazeCenter = 0.5, headCenterX = 0.5, headCenterY = 0.6 \<rparr>"
  by (simp_all add: calibratedEngine_def setCalibration_def subscribedEngine_fields)

lemma turnedFace_landmarks:
  "face_landmarks turnedFace = Some (map (facePoint 0.53 0.6 0.9) [0..<478])"
  by (simp add: turnedFace_def sampleFace_def)

lemma sample_face_landmarks:
  "face_landmarks (sampleFace lid jaw nx) = Some (map (facePoint lid jaw nx) [0..<478])"
  by (simp add: sampleFace_def)

text \<open>
  Claim C4: before any \<^verbatim>\<open>setCalibration\<close> call no head-turn, head-droop or
  gaze-deviation alert is delivered, whatever the offsets; after calibration the same
  offsets yield the tier that the thresholds prescribe. The first half holds
  (\<open>processFrame_other_alerts\<close>, \<open>headPoseEstimation_uncalibrated\<close>). The second
  half fails in the code: on the calibrated engine, a face whose nose tip lies 0.4 to the
  side of the calibrated centre ends the call with the \<^verbatim>\<open>TypeError\<close> of
  \<^verbatim>\<open>calculateMAR\<close>, before the head-pose step, and nothing is delivered. The head-pose
  step itself, given the same nose tip, delivers the severe head-turn alert.
\<close>

theorem calibrated_head_turn_not_reported:
  "processFrame (Some turnedFace) [] 1000 1000 ''session'' 100 calibratedEngine =
     (Threw TypeError, calibratedEngine, [])
   \<and> sent (headPoseEstimation 100 (pt 0.9 0.6) (Center 500 600) 1000
        \<lparr> res = initialResult calibratedEngine, eng = calibratedEngine, sent = [] \<rparr>) =
       [(0, \<lparr> alert_id = 100, alert_type = head_turn, alert_severity = Severe,
               message = ''Severe Head Turn'', timestamp = 100, confidenceScore = Some 0.9,
               metadata = None, sessionId = [] \<rparr>)]"
proof -
  have "processFrame (Some turnedFace) [] 1000 1000 ''session'' 100 calibratedEngine =
     (Threw TypeError, calibratedEngine\<lparr>eyeClosureCounter := 0\<rparr>, [])"
    by (simp add: processFrame_face [OF turnedFace_landmarks]
        faceMetrics_sample threw_def blinkRateMonitoring_def eyeClosureDetection_def
        storeEAR_def calibratedEngine_fields DEFAULT_CONFIG_fields Let_def)
  moreover have "calibratedEngine\<lparr>eyeClosureCounter := 0\<rparr> = calibratedEngine"
    by (simp add: calibratedEngine_def setCalibration_def subscribedEngine_def
        addAlertCallback_def newDetectionEngine_def)
  moreover have "sent (headPoseEstimation 100 (pt 0.9 0.6) (Center 500 600) 1000
        \<lparr> res = initialResult calibratedEngine, eng = calibratedEngine, sent = [] \<rparr>) =
       [(0, \<lparr> alert_id = 100, alert_type = head_turn, alert_severity = Severe,
               message = ''Severe Head Turn'', timestamp = 100, confidenceScore = Some 0.9,
               metadata = None, sessionId = [] \<rparr>)]"
    by (simp add: headPoseEstimation_def headTurning_def headTiltDroop_def gazeEstimation_def
        setTurn_def triggerAlertIn_def triggerAlert_def jsdiv_def pt_def
        calibratedEngine_fields DEFAULT_CONFIG_def Let_def)
  ultimately show ?thesis by simp
qed

lemma headPoseEstimation_uncalibrated:
  "\<not> isCalibrated (eng s) \<Longrightarrow> sent (headPoseEstimation now nose iris w s) = sent s"
  by (simp add: headPoseEstimation_def Let_def)

lemma feedFrames_all_other_alerts:
  assumes "ty \<noteq> eye_closure" and "ty \<noteq> blink_rate_high"
  shows "alertsOfType ty (concat (map snd (fst (feedFrames fs st)))) = []"
proof (induction fs arbitrary: st)
  case Nil
  then show ?case by simp
next
  case (Cons f fs)
  obtain c st1 out where P: "processFrame (fi_face f) (fi_hands f) (fi_width f) (fi_height f)
             (fi_session f) (fi_now f) st = (c, st1, out)"
    by (cases "processFrame (fi_face f) (fi_hands f) (fi_width f) (fi_height f)
             (fi_session f) (fi_now f) st") auto
  obtain rs st2 where F: "feedFrames fs st1 = (rs, st2)"
    by (cases "feedFrames fs st1") auto
  have o: "alertsOfType ty out = []"
    using processFrame_other_alerts [OF assms, of "fi_face f" "fi_hands f" "fi_width f"
        "fi_height f" "fi_session f" "fi_now f" st] by (simp add: P)
  have "alertsOfType ty (concat (map snd rs)) = []"
    using Cons.IH [of st1] by (simp add: F)
  then show ?case by (simp add: P F o)
qed

lemma feedFrames_face_throws:
  assumes "k < length fs" and "fi_face (fs ! k) = Some face" and "face_landmarks face = Some lms"
  shows "fst (fst (feedFrames fs st) ! k) = Threw TypeError"
  using assms
proof (induction fs arbitrary: st k)
  case Nil
  then show ?case by simp
next
  case (Cons f fs)
  obtain c st1 out where P: "processFrame (fi_face f) (fi_hands f) (fi_width f) (fi_height f)
             (fi_session f) (fi_now f) st = (c, st1, out)"
    by (cases "processFrame (fi_face f) (fi_hands f) (fi_width f) (fi_height f)
             (fi_session f) (fi_now f) st") auto
  obtain rs st2 where F: "feedFrames fs st1 = (rs, st2)"
    by (cases "feedFrames fs st1") auto
  show ?case
  proof (cases k)
    case 0
    then have "fi_face f = Some face" using Cons.prems by simp
    then have "c = Threw TypeError"
      using processFrame_face_throws [OF Cons.prems(3), of "fi_hands f" "fi_width f"
          "fi_height f" "fi_session f" "fi_now f" st] P by simp
    then show ?thesis by (simp add: 0 P F)
  next
    case (Suc j)
    then have "fst (fst (feedFrames fs st1) ! j) = Threw TypeError"
      using Cons.prems by (intro Cons.IH) simp_all
    then show ?thesis by (simp add: Suc P F)
  qed
qed

text \<open>
  Claim C7: some call delivers both a severe eye-closure alert and a drowsiness alert
  (severe eye closure with active yawning). The composite step is written for it
  (\<open>compositeDrowsiness_level\<close>, \<open>compositeDrowsiness_sent\<close>), but no call reaches
  it. Thirty-two consecutive frames with closed eyes and a wide-open mouth, on the default
  engine: call 32 delivers the severe eye-closure alert and throws, and none of the 32
  calls delivers a drowsiness alert.
\<close>

theorem drowsiness_never_reported:
  "fst (fst (feedFrames (framesOf yawningClosedEyesFace 32) subscribedEngine) ! 31) = Threw TypeError
   \<and> alertsOfType eye_closure
        (snd (fst (feedFrames (framesOf yawningClosedEyesFace 32) subscribedEngine) ! 31)) =
       [(0, \<lparr> alert_id = 1023, alert_type = eye_closure, alert_severity = Severe,
               message = ''Alert: Eyes Closed Too Long'', timestamp = 1023,
               confidenceScore = Some 0.9, metadata = Some (EyeMeta 0.10 32),
               sessionId = [] \<rparr>)]
   \<and> alertsOfType drowsiness
        (concat (map snd (fst (feedFrames (framesOf yawningClosedEyesFace 32) subscribedEngine))))
       = []"
proof -
  let ?fs = "framesOf (sampleFace 0.51 0.7 0.5) 32"
  have a: "\<forall>f \<in> set ?fs. eyesClosedIn (config subscribedEngine) f"
    using closed_sample_frames(1) [of _ "0.7" "0.5" 32] by (simp add: subscribedEngine_fields)
  have n: "?fs ! 31 = frameOf (sampleFace 0.51 0.7 0.5) 1023"
    by (simp add: framesOf_nth)
  have e: "frameAverageEAR (?fs ! 31) = Some 0.10"
    unfolding n by (simp add: frameOf_sample_metrics)
  have l: "(31::nat) < length ?fs" by (simp add: framesOf_def)
  from feedFrames_closed [OF a] l e
  have "fst (fst (feedFrames ?fs subscribedEngine) ! 31) = Threw TypeError"
    and "alertsOfType eye_closure (snd (fst (feedFrames ?fs subscribedEngine) ! 31)) =
          eyeClosureAlerts subscribedEngine (fi_now (?fs ! 31)) 0.10
            (eyeClosureCounter subscribedEngine + 31 + 1)"
    by blast+
  moreover have "alertsOfType drowsiness
      (concat (map snd (fst (feedFrames ?fs subscribedEngine)))) = []"
    by (rule feedFrames_all_other_alerts) simp_all
  ultimately show ?thesis
    unfolding yawningClosedEyesFace_def n
    by (simp add: frameOf_def eyeClosureAlerts_def subscribedEngine_fields triggerAlert_def
        Let_def)
qed

lemma compositeDrowsiness_level:
  "level (drowsinessR (res (compositeDrowsiness now s))) =
     (if eye_severity (eyeClosure (res s)) = Alert
         \<and> (droop (headPose (res s)) \<noteq> LevelNone \<or> isYawning (mouth (res s)))
      then LevelSevere
      else if eye_severity (eyeClosure (res s)) = Warning
         \<and> (droop (headPose (res s)) \<noteq> LevelNone \<or> isYawning (mouth (res s)))
      then LevelModerate
      else level (drowsinessR (res s)))"
  by (cases "droop (headPose (res s))"; cases "eye_severity (eyeClosure (res s))")
    (simp_all add: compositeDrowsiness_def levelSeverity_def triggerAlertIn_def Let_def)

lemma compositeDrowsiness_sent:
  "alertsOfType drowsiness (sent (compositeDrowsiness now s)) =
     alertsOfType drowsiness (sent s) @
     (if eye_severity (eyeClosure (res s)) = Alert
         \<and> (droop (headPose (res s)) \<noteq> LevelNone \<or> isYawning (mouth (res s)))
      then snd (triggerAlert now drowsiness Severe ''Severe DROWSINESS Observed'' (Some 0.95)
                  None (eng s))
      else if eye_severity (eyeClosure (res s)) = Warning
         \<and> (droop (headPose (res s)) \<noteq> LevelNone \<or> isYawning (mouth (res s)))
      then snd (triggerAlert now drowsiness Moderate ''Moderate DROWSINESS Observed''
                  (Some 0.85) None (eng s))
      else [])"
  by (cases "droop (headPose (res s))"; cases "eye_severity (eyeClosure (res s))")
    (simp_all add: compositeDrowsiness_def levelSeverity_def triggerAlertIn_def Let_def
      alertsOfType_triggerAlert)

lemma yawningFace_landmarks:
  "face_landmarks yawningFace = Some (map (facePoint 0.53 0.7 0.5) [0..<478])"
  by (simp add: yawningFace_def sampleFace_def)

lemma eagerYawnEngine_fields:
  "yawnThreshold (config eagerYawnEngine) = - 1"
  "earThreshold (config eagerYawnEngine) = 0.140"
  "eyeClosedFramesThreshold (config eagerYawnEngine) = 9"
  "eyeClosureCounter eagerYawnEngine = 0"
  "blinkCounter eagerYawnEngine = 0"
  "yawnCounter eagerYawnEngine = 0"
  "blinkTimer eagerYawnEngine = 0"
  "alertCallbacks eagerYawnEngine = [0]"
  by (simp_all add: eagerYawnEngine_def addAlertCallback_def newDetectionEngine_def
      spread_def noOverrides_def DEFAULT_CONFIG_def)

text \<open>
  Claim C8: a call in which the yawn counter exceeds the yawn threshold delivers exactly
  one moderate yawning alert and resets the counter. The yawn step is written for it
  (\<open>yawningDetection_counter\<close>, \<open>yawningDetection_sent\<close>), but no call reaches it.
  Four consecutive frames with a mouth as high as it is wide (MAR 1 on the full landmark
  array), on the default engine: every call throws, no yawning alert is delivered and the
  counter stays at 0. On an engine with \<open>yawnThreshold = -1\<close> the counter exceeds the
  threshold from the start, and the call still delivers nothing.
\<close>

theorem yawn_never_reported:
  "calculateMAR (map (\<lambda>i. Some (facePoint 0.53 0.7 0.5 i)) [0..<478]) 1000 1000 = Some 1
   \<and> fst (fst (feedFrames (framesOf yawningFace 4) subscribedEngine) ! 3) = Threw TypeError
   \<and> alertsOfType yawning
        (concat (map snd (fst (feedFrames (framesOf yawningFace 4) subscribedEngine)))) = []
   \<and> yawnCounter (snd (feedFrames (framesOf yawningFace 4) subscribedEngine)) = 0
   \<and> real (yawnCounter eagerYawnEngine) > yawnThreshold (config eagerYawnEngine)
   \<and> processFrame (Some yawningFace) [] 1000 1000 ''session'' 0 eagerYawnEngine =
       (Threw TypeError, eagerYawnEngine, [])"
proof -
  have p: "elemAt (map (\<lambda>i. Some (facePoint 0.53 0.7 0.5 i)) [0..<478]) i =
      Some (Some (facePoint 0.53 0.7 0.5 i))" if "i < 478" for i
    using that by (rule elemAt_map_upt)
  have mar: "calculateMAR (map (\<lambda>i. Some (facePoint 0.53 0.7 0.5 i)) [0..<478]) 1000 1000
      = Some 1"
  proof -
    have g: "getPoint (map (\<lambda>i. Some (facePoint 0.53 0.7 0.5 i)) [0..<478]) 1000 1000 i =
        Some (lm_x (facePoint 0.53 0.7 0.5 i) * 1000, lm_y (facePoint 0.53 0.7 0.5 i) * 1000)"
      if "i < 478" for i
      using that by (rule getPoint_Some [OF p])
    have v: "facePoint 0.53 0.7 0.5 13 = pt 0.5 0.6" "facePoint 0.53 0.7 0.5 14 = pt 0.5 0.7"
      "facePoint 0.53 0.7 0.5 78 = pt 0.5 0.6" "facePoint 0.53 0.7 0.5 308 = pt 0.6 0.6"
      by (simp_all add: facePoint_def)
    show ?thesis
      unfolding calculateMAR_def
      by (simp only: g [of 13] g [of 14] g [of 78] g [of 308] v) (simp add: pt_def)
  qed
  have l: "(3::nat) < length (framesOf yawningFace 4)" by (simp add: framesOf_def)
  have f: "fi_face (framesOf yawningFace 4 ! 3) = Some yawningFace"
    by (simp add: framesOf_nth frameOf_def)
  have t: "fst (fst (feedFrames (framesOf yawningFace 4) subscribedEngine) ! 3) = Threw TypeError"
    by (rule feedFrames_face_throws [OF l f yawningFace_landmarks])
  have a: "alertsOfType yawning
        (concat (map snd (fst (feedFrames (framesOf yawningFace 4) subscribedEngine)))) = []"
    by (rule feedFrames_all_other_alerts) simp_all
  have y: "yawnCounter (snd (feedFrames (framesOf yawningFace 4) subscribedEngine)) = 0"
    using feedFrames_untouched [of "framesOf yawningFace 4" subscribedEngine]
    by (simp add: subscribedEngine_fields)
  have g: "real (yawnCounter eagerYawnEngine) > yawnThreshold (config eagerYawnEngine)"
    by (simp add: eagerYawnEngine_fields)
  have "processFrame (Some yawningFace) [] 1000 1000 ''session'' 0 eagerYawnEngine =
       (Threw TypeError, eagerYawnEngine\<lparr>eyeClosureCounter := 0\<rparr>, [])"
    by (simp add: processFrame_face [OF yawningFace_landmarks]
        faceMetrics_sample threw_def blinkRateMonitoring_def eyeClosureDetection_def
        storeEAR_def eagerYawnEngine_fields Let_def)
  moreover have "eagerYawnEngine\<lparr>eyeClosureCounter := 0\<rparr> = eagerYawnEngine"
    by (simp add: eagerYawnEngine_def addAlertCallback_def newDetectionEngine_def)
  ultimately show ?thesis
    using mar t a y g by simp
qed

end
